theory Spec2Isabelle
  imports Main
begin

section \<open>Python values handled by the connectors\<close>

text \<open>
  The connectors of \<^verbatim>\<open>web_analytics_connector.py\<close> receive decoded JSON documents and
  reshape them into pandas tables. A decoded JSON value is \<open>None\<close>, a bool, an int, a float,
  a str, a list or a dict with string keys. The float type \<open>'f\<close> is a parameter: nothing
  below computes with floats, the code only produces them with the built-in \<open>float\<close>.
  A dict is an association list in insertion order; the first binding of a key is the
  one that counts.
\<close>

datatype 'f json =
    JNull
  | JBool bool
  | JInt int
  | JFloat 'f
  | JStr string
  | JArr "'f json list"
  | JObj "(string \<times> 'f json) list"

text \<open>
  The exceptions that can leave the connectors. The first five are Python's built-in ones,
  raised by the dynamic accesses of the code; \<open>ValueError\<close> is what \<open>float\<close> raises on
  a string that is not a number. \<open>ValidationError\<close>, \<open>TransportError\<close> and \<open>ApiError\<close>
  are raised by the base class \<^verbatim>\<open>BaseDataConnector\<close>.
\<close>

datatype py_error =
    KeyError
  | IndexError
  | TypeError
  | AttributeError
  | ValueError
  | ValidationError
  | TransportError
  | ApiError nat string

definition first_occ :: "'a list \<Rightarrow> 'a list" where
  \<comment> \<open>every element once, at the place of its first occurrence\<close>
  "first_occ xs = rev (remdups (rev xs))"

definition dict_keys :: "('k \<times> 'v) list \<Rightarrow> 'k list" where
  "dict_keys kvs = first_occ (map fst kvs)"

fun dict_set :: "('k \<times> 'v) list \<Rightarrow> 'k \<Rightarrow> 'v \<Rightarrow> ('k \<times> 'v) list" where
  \<comment> \<open>\<^verbatim>\<open>d[k] = v\<close>: an existing key keeps its place, a new key goes last\<close>
  "dict_set [] k v = [(k, v)]"
| "dict_set ((k', v') # d) k v =
     (if k' = k then (k', v) # d else (k', v') # dict_set d k v)"

fun py_iter :: "'f json \<Rightarrow> py_error + 'f json list" where
  \<comment> \<open>the items a \<^verbatim>\<open>for\<close> loop (or \<^verbatim>\<open>enumerate\<close>) visits\<close>
  "py_iter (JArr xs) = Inr xs"
| "py_iter (JStr s) = Inr (map (\<lambda>c. JStr [c]) s)"
| "py_iter (JObj kvs) = Inr (map JStr (dict_keys kvs))"
| "py_iter JNull = Inl TypeError"
| "py_iter (JBool b) = Inl TypeError"
| "py_iter (JInt n) = Inl TypeError"
| "py_iter (JFloat x) = Inl TypeError"

fun py_getitem :: "'f json \<Rightarrow> string \<Rightarrow> py_error + 'f json" where
  \<comment> \<open>\<^verbatim>\<open>x['key']\<close>\<close>
  "py_getitem (JObj kvs) k = (case map_of kvs k of None \<Rightarrow> Inl KeyError | Some v \<Rightarrow> Inr v)"
| "py_getitem JNull k = Inl TypeError"
| "py_getitem (JBool b) k = Inl TypeError"
| "py_getitem (JInt n) k = Inl TypeError"
| "py_getitem (JFloat x) k = Inl TypeError"
| "py_getitem (JStr s) k = Inl TypeError"
| "py_getitem (JArr xs) k = Inl TypeError"

fun py_get :: "'f json \<Rightarrow> string \<Rightarrow> 'f json \<Rightarrow> py_error + 'f json" where
  \<comment> \<open>\<^verbatim>\<open>x.get('key', default)\<close>: only a dict has the method\<close>
  "py_get (JObj kvs) k d = Inr (case map_of kvs k of None \<Rightarrow> d | Some v \<Rightarrow> v)"
| "py_get JNull k d = Inl AttributeError"
| "py_get (JBool b) k d = Inl AttributeError"
| "py_get (JInt n) k d = Inl AttributeError"
| "py_get (JFloat x) k d = Inl AttributeError"
| "py_get (JStr s) k d = Inl AttributeError"
| "py_get (JArr xs) k d = Inl AttributeError"

definition py_index :: "'a list \<Rightarrow> nat \<Rightarrow> py_error + 'a" where
  \<comment> \<open>\<^verbatim>\<open>xs[i]\<close> for an index that \<^verbatim>\<open>enumerate\<close> produced (never negative)\<close>
  "py_index xs i = (if i < length xs then Inr (xs ! i) else Inl IndexError)"

fun hashable :: "'f json \<Rightarrow> bool" where
  "hashable (JArr xs) = False"
| "hashable (JObj kvs) = False"
| "hashable JNull = True"
| "hashable (JBool b) = True"
| "hashable (JInt n) = True"
| "hashable (JFloat x) = True"
| "hashable (JStr s) = True"

fun is_JStr :: "'f json \<Rightarrow> bool" where
  "is_JStr (JStr s) = True"
| "is_JStr JNull = False"
| "is_JStr (JBool b) = False"
| "is_JStr (JInt n) = False"
| "is_JStr (JFloat x) = False"
| "is_JStr (JArr xs) = False"
| "is_JStr (JObj kvs) = False"

fun is_JObj :: "'f json \<Rightarrow> bool" where
  "is_JObj (JObj kvs) = True"
| "is_JObj JNull = False"
| "is_JObj (JBool b) = False"
| "is_JObj (JInt n) = False"
| "is_JObj (JFloat x) = False"
| "is_JObj (JStr s) = False"
| "is_JObj (JArr xs) = False"

section \<open>Tables\<close>

text \<open>
  A cell of a table holds a decoded value as it came, a float produced by \<open>float\<close>, a
  timestamp produced by \<^verbatim>\<open>pd.to_datetime\<close> (the type \<open>'d\<close>, a parameter), or the
  filler pandas puts where a record has no value for a column.

  A \<^verbatim>\<open>pd.DataFrame\<close> is kept by column: the length of its index and its columns in
  order, each a label with one cell per index entry. Labels are decoded values: the
  GA4 connector uses whatever the response gives as a header name. Labels are compared
  structurally, which is Python's comparison on strings; Python takes \<open>1\<close>, \<open>1.0\<close> and
  \<open>True\<close> for one key, which is not modelled, so the properties that depend on the
  comparison of labels are stated for names that are strings. A cell keeps the value it
  was given: the conversion pandas applies within a column (an int to a float where the
  column also holds floats or fillers) is not modelled.
\<close>

datatype ('f, 'd) cell =
    CObj "'f json"
  | CFloat 'f
  | CTime 'd
  | CNaN

record ('f, 'd) dataframe =
  index_len :: nat
  cols :: "('f json \<times> ('f, 'd) cell list) list"

definition DataFrame_empty :: "('f, 'd) dataframe" where
  \<comment> \<open>\<^verbatim>\<open>pd.DataFrame()\<close>\<close>
  "DataFrame_empty = \<lparr>index_len = 0, cols = []\<rparr>"

definition DataFrame_records ::
  "('f json \<times> ('f, 'd) cell) list list \<Rightarrow> ('f, 'd) dataframe" where
  \<comment> \<open>\<^verbatim>\<open>pd.DataFrame(list_of_dicts)\<close>: one index entry per dict; the columns are the keys
      in the order in which they first appear; a dict without a key gets the filler\<close>
  "DataFrame_records recs =
     \<lparr>index_len = length recs,
      cols = map (\<lambda>l. (l, map (\<lambda>r. case map_of r l of None \<Rightarrow> CNaN | Some v \<Rightarrow> v) recs))
               (first_occ (concat (map (map fst) recs)))\<rparr>"

definition frame_columns :: "('f, 'd) dataframe \<Rightarrow> 'f json list" where
  \<comment> \<open>\<^verbatim>\<open>df.columns\<close>\<close>
  "frame_columns df = map fst (cols df)"

definition frame_getitem ::
  "('f, 'd) dataframe \<Rightarrow> 'f json \<Rightarrow> py_error + ('f, 'd) cell list" where
  \<comment> \<open>\<^verbatim>\<open>df[label]\<close>\<close>
  "frame_getitem df l = (case map_of (cols df) l of None \<Rightarrow> Inl KeyError | Some vs \<Rightarrow> Inr vs)"

definition align :: "nat \<Rightarrow> ('f, 'd) cell list \<Rightarrow> ('f, 'd) cell list" where
  \<comment> \<open>a series assigned to a column is aligned on the index \<open>0..<n\<close>\<close>
  "align n vs = map (\<lambda>i. if i < length vs then vs ! i else CNaN) [0..<n]"

definition frame_setitem ::
  "('f, 'd) dataframe \<Rightarrow> 'f json \<Rightarrow> ('f, 'd) cell list \<Rightarrow> ('f, 'd) dataframe" where
  \<comment> \<open>\<^verbatim>\<open>df[label] = series\<close>\<close>
  "frame_setitem df l vs = df\<lparr>cols := dict_set (cols df) l (align (index_len df) vs)\<rparr>"

definition frame_setitem_scalar ::
  "('f, 'd) dataframe \<Rightarrow> 'f json \<Rightarrow> ('f, 'd) cell \<Rightarrow> ('f, 'd) dataframe" where
  \<comment> \<open>\<^verbatim>\<open>df[label] = scalar\<close>\<close>
  "frame_setitem_scalar df l v = df\<lparr>cols := dict_set (cols df) l (replicate (index_len df) v)\<rparr>"

definition frame_rows :: "('f, 'd) dataframe \<Rightarrow> ('f json \<times> ('f, 'd) cell) list list" where
  \<comment> \<open>the table read by row (\<^verbatim>\<open>df.to_dict('records')\<close>)\<close>
  "frame_rows df = map (\<lambda>i. map (\<lambda>(l, vs). (l, vs ! i)) (cols df)) [0..<index_len df]"

section \<open>The collaborators\<close>

text \<open>
  What the connectors call and this file does not define: the request method of the
  base class, the built-in \<open>float\<close>, \<^verbatim>\<open>pd.to_datetime\<close>, the check behind
  \<^verbatim>\<open>_validate_data\<close>, and the \<^verbatim>\<open>pd.DataFrame\<close> constructor on data that is not a
  list of dicts. They are the fields of an environment the operations take as their first
  argument. A request changes the state \<open>'w\<close> of the base class (its rate limiter, the
  network), so \<open>make_request\<close> takes and returns it.
\<close>

record 'f request =
  endpoint :: string
  http_method :: "string option"
  params :: "(string \<times> string) list option"
  data :: "'f json option"

record ('f, 'd, 'w) env =
  make_request :: "'f request \<Rightarrow> 'w \<Rightarrow> (py_error + (string \<times> 'f json) list) \<times> 'w"
  py_float :: "'f json \<Rightarrow> py_error + 'f"
  to_datetime :: "('f, 'd) cell list \<Rightarrow> py_error + 'd list"
  valid :: "('f, 'd) dataframe \<Rightarrow> bool"
  frame_other :: "'f json \<Rightarrow> py_error + ('f, 'd) dataframe"

definition validate_data ::
  "('f, 'd, 'w) env \<Rightarrow> ('f, 'd) dataframe \<Rightarrow> py_error + ('f, 'd) dataframe" where
  \<comment> \<open>Modelled from the spec: \<^verbatim>\<open>BaseDataConnector._validate_data\<close> is not in the
      sources. The spec's contract is: it receives a table and returns the table unchanged
      if it is valid, or raises \<open>ValidationError\<close>; the checks themselves are the
      parameter \<open>valid\<close>.\<close>
  "validate_data env df = (if valid env df then Inr df else Inl ValidationError)"

definition DataFrame :: "('f, 'd, 'w) env \<Rightarrow> 'f json \<Rightarrow> py_error + ('f, 'd) dataframe" where
  \<comment> \<open>\<^verbatim>\<open>pd.DataFrame(data)\<close> on a decoded value: a list of dicts gives one index entry
      per dict, its values kept as they are\<close>
  "DataFrame env v =
     (case v of
        JArr xs \<Rightarrow>
          if list_all is_JObj xs
          then Inr (DataFrame_records
                 (map (\<lambda>x. case x of
                              JObj kvs \<Rightarrow> map (\<lambda>(k, v). (JStr k, CObj v)) kvs
                            | _ \<Rightarrow> []) xs))
          else frame_other env v
      | _ \<Rightarrow> frame_other env v)"

section \<open>GoogleAnalyticsConnector\<close>

record base_connector =
  api_key :: string
  base_url :: string
  rate_limit_requests :: nat
  rate_limit_window :: nat

record ga_connector = base_connector +
  property_id :: string

definition GoogleAnalyticsConnector :: "string \<Rightarrow> string \<Rightarrow> ga_connector" where
  "GoogleAnalyticsConnector access_token pid =
     \<lparr>api_key = access_token,
      base_url = ''https://analyticsdata.googleapis.com/v1beta'',
      rate_limit_requests = 100,
      rate_limit_window = 100,
      property_id = pid\<rparr>"

definition ga_get_available_datasets ::
  "ga_connector \<Rightarrow> 'w \<Rightarrow> (string \<times> string) list list \<times> 'w" where
  "ga_get_available_datasets self w =
     ([[(''name'', ''sessions''), (''type'', ''metric''), (''description'', ''Total number of sessions'')],
       [(''name'', ''users''), (''type'', ''metric''), (''description'', ''Total number of users'')],
       [(''name'', ''pageviews''), (''type'', ''metric''), (''description'', ''Total number of pageviews'')],
       [(''name'', ''bounceRate''), (''type'', ''metric''), (''description'', ''Bounce rate percentage'')],
       [(''name'', ''sessionDuration''), (''type'', ''metric''), (''description'', ''Average session duration'')],
       [(''name'', ''date''), (''type'', ''dimension''), (''description'', ''Date dimension'')],
       [(''name'', ''country''), (''type'', ''dimension''), (''description'', ''Country dimension'')],
       [(''name'', ''deviceCategory''), (''type'', ''dimension''), (''description'', ''Device category'')],
       [(''name'', ''source''), (''type'', ''dimension''), (''description'', ''Traffic source'')],
       [(''name'', ''medium''), (''type'', ''dimension''), (''description'', ''Traffic medium'')]],
      w)"

fun header_names :: "'f json list \<Rightarrow> py_error + 'f json list" where
  \<comment> \<open>\<^verbatim>\<open>[h['name'] for h in headers]\<close>\<close>
  "header_names [] = Inr []"
| "header_names (h # hs) =
     (case py_getitem h ''name'' of
        Inl e \<Rightarrow> Inl e
      | Inr n \<Rightarrow> (case header_names hs of Inl e \<Rightarrow> Inl e | Inr ns \<Rightarrow> Inr (n # ns)))"

fun add_dimensions ::
  "'f json list \<Rightarrow> nat \<Rightarrow> 'f json list \<Rightarrow> ('f json \<times> ('f, 'd) cell) list
     \<Rightarrow> py_error + ('f json \<times> ('f, 'd) cell) list" where
  \<comment> \<open>the loop of lines 97-98, from index \<open>i\<close> on: the right-hand side is evaluated
      first, then the header is indexed, then the key is stored\<close>
  "add_dimensions dimension_headers i [] row_data = Inr row_data"
| "add_dimensions dimension_headers i (dim_value # rest) row_data =
     (case py_getitem dim_value ''value'' of
        Inl e \<Rightarrow> Inl e
      | Inr v \<Rightarrow>
          (case py_index dimension_headers i of
             Inl e \<Rightarrow> Inl e
           | Inr h \<Rightarrow>
               if hashable h
               then add_dimensions dimension_headers (Suc i) rest (dict_set row_data h (CObj v))
               else Inl TypeError))"

fun add_metrics ::
  "('f json \<Rightarrow> py_error + 'f) \<Rightarrow> 'f json list \<Rightarrow> nat \<Rightarrow> 'f json list
     \<Rightarrow> ('f json \<times> ('f, 'd) cell) list \<Rightarrow> py_error + ('f json \<times> ('f, 'd) cell) list" where
  \<comment> \<open>the loop of lines 101-102, from index \<open>i\<close> on\<close>
  "add_metrics fl metric_headers i [] row_data = Inr row_data"
| "add_metrics fl metric_headers i (met_value # rest) row_data =
     (case py_getitem met_value ''value'' of
        Inl e \<Rightarrow> Inl e
      | Inr v \<Rightarrow>
          (case fl v of
             Inl e \<Rightarrow> Inl e
           | Inr x \<Rightarrow>
               (case py_index metric_headers i of
                  Inl e \<Rightarrow> Inl e
                | Inr h \<Rightarrow>
                    if hashable h
                    then add_metrics fl metric_headers (Suc i) rest (dict_set row_data h (CFloat x))
                    else Inl TypeError)))"

definition flatten_row ::
  "('f json \<Rightarrow> py_error + 'f) \<Rightarrow> 'f json list \<Rightarrow> 'f json list \<Rightarrow> 'f json
     \<Rightarrow> py_error + ('f json \<times> ('f, 'd) cell) list" where
  \<comment> \<open>the body of the loop over the rows, lines 94-102\<close>
  "flatten_row fl dimension_headers metric_headers row =
     (case py_get row ''dimensionValues'' (JArr []) of
        Inl e \<Rightarrow> Inl e
      | Inr dv \<Rightarrow>
     (case py_iter dv of
        Inl e \<Rightarrow> Inl e
      | Inr dvs \<Rightarrow>
     (case add_dimensions dimension_headers 0 dvs [] of
        Inl e \<Rightarrow> Inl e
      | Inr row_data \<Rightarrow>
     (case py_get row ''metricValues'' (JArr []) of
        Inl e \<Rightarrow> Inl e
      | Inr mv \<Rightarrow>
     (case py_iter mv of
        Inl e \<Rightarrow> Inl e
      | Inr mvs \<Rightarrow> add_metrics fl metric_headers 0 mvs row_data)))))"

fun flatten_rows ::
  "('f json \<Rightarrow> py_error + 'f) \<Rightarrow> 'f json list \<Rightarrow> 'f json list \<Rightarrow> 'f json list
     \<Rightarrow> py_error + ('f json \<times> ('f, 'd) cell) list list" where
  \<comment> \<open>the loop over the rows, lines 92-104: \<open>flattened_data\<close> in the order of the rows\<close>
  "flatten_rows fl dimension_headers metric_headers [] = Inr []"
| "flatten_rows fl dimension_headers metric_headers (row # rows) =
     (case flatten_row fl dimension_headers metric_headers row of
        Inl e \<Rightarrow> Inl e
      | Inr row_data \<Rightarrow>
          (case flatten_rows fl dimension_headers metric_headers rows of
             Inl e \<Rightarrow> Inl e
           | Inr flattened_data \<Rightarrow> Inr (row_data # flattened_data)))"

definition response_headers :: "(string \<times> 'f json) list \<Rightarrow> string \<Rightarrow> py_error + 'f json list" where
  \<comment> \<open>\<^verbatim>\<open>[h['name'] for h in response.get(key, [])]\<close>, lines 88 and 89\<close>
  "response_headers response key =
     (case py_iter (case map_of response key of None \<Rightarrow> JArr [] | Some v \<Rightarrow> v) of
        Inl e \<Rightarrow> Inl e
      | Inr hs \<Rightarrow> header_names hs)"

definition convert_date ::
  "('f, 'd, 'w) env \<Rightarrow> ('f, 'd) dataframe \<Rightarrow> py_error + ('f, 'd) dataframe" where
  \<comment> \<open>\<^verbatim>\<open>df['date'] = pd.to_datetime(df['date'])\<close>\<close>
  "convert_date env df =
     (case frame_getitem df (JStr ''date'') of
        Inl e \<Rightarrow> Inl e
      | Inr vs \<Rightarrow>
          (case to_datetime env vs of
             Inl e \<Rightarrow> Inl e
           | Inr ds \<Rightarrow> Inr (frame_setitem df (JStr ''date'') (map CTime ds))))"

definition ga_table ::
  "('f, 'd, 'w) env \<Rightarrow> (string \<times> 'f json) list \<Rightarrow> py_error + ('f, 'd) dataframe" where
  \<comment> \<open>\<^verbatim>\<open>get_data\<close> from the response on, lines 83-112\<close>
  "ga_table env response =
     (case map_of response ''rows'' of
        None \<Rightarrow> Inr DataFrame_empty
      | Some rows \<Rightarrow>
     (case response_headers response ''dimensionHeaders'' of
        Inl e \<Rightarrow> Inl e
      | Inr dimension_headers \<Rightarrow>
     (case response_headers response ''metricHeaders'' of
        Inl e \<Rightarrow> Inl e
      | Inr metric_headers \<Rightarrow>
     (case py_iter rows of
        Inl e \<Rightarrow> Inl e
      | Inr rs \<Rightarrow>
     (case flatten_rows (py_float env) dimension_headers metric_headers rs of
        Inl e \<Rightarrow> Inl e
      | Inr flattened_data \<Rightarrow>
     (let df = DataFrame_records flattened_data in
      if JStr ''date'' \<in> set (frame_columns df)
      then (case convert_date env df of Inl e \<Rightarrow> Inl e | Inr df' \<Rightarrow> validate_data env df')
      else validate_data env df))))))"

definition ga_request ::
  "ga_connector \<Rightarrow> string list \<Rightarrow> string list option \<Rightarrow> string option \<Rightarrow> string option
     \<Rightarrow> 'f request" where
  \<comment> \<open>the request \<^verbatim>\<open>get_data\<close> builds, lines 70-81; an argument that the caller
      leaves out is \<open>None\<close>\<close>
  "ga_request self metrics dimensions start_date end_date =
     (let dimensions = (case dimensions of None \<Rightarrow> [''date''] | Some ds \<Rightarrow> ds);
          start_date = (case start_date of None \<Rightarrow> ''30daysAgo'' | Some s \<Rightarrow> s);
          end_date = (case end_date of None \<Rightarrow> ''today'' | Some s \<Rightarrow> s);
          request_body = JObj
            [(''dateRanges'',
                JArr [JObj [(''startDate'', JStr start_date), (''endDate'', JStr end_date)]]),
             (''metrics'', JArr (map (\<lambda>metric. JObj [(''name'', JStr metric)]) metrics)),
             (''dimensions'',
                JArr (map (\<lambda>dimension. JObj [(''name'', JStr dimension)]) dimensions))]
      in \<lparr>endpoint = ''properties/'' @ property_id self @ '':runReport'',
          http_method = Some ''POST'',
          params = None,
          data = Some request_body\<rparr>)"

definition get_data ::
  "('f, 'd, 'w) env \<Rightarrow> ga_connector \<Rightarrow> string list \<Rightarrow> string list option \<Rightarrow> string option
     \<Rightarrow> string option \<Rightarrow> 'w \<Rightarrow> (py_error + ('f, 'd) dataframe) \<times> 'w" where
  "get_data env self metrics dimensions start_date end_date w =
     (case make_request env (ga_request self metrics dimensions start_date end_date) w of
        (Inl e, w') \<Rightarrow> (Inl e, w')
      | (Inr response, w') \<Rightarrow> (ga_table env response, w'))"

definition get_traffic_overview ::
  "('f, 'd, 'w) env \<Rightarrow> ga_connector \<Rightarrow> string option \<Rightarrow> string option \<Rightarrow> 'w
     \<Rightarrow> (py_error + ('f, 'd) dataframe) \<times> 'w" where
  "get_traffic_overview env self start_date end_date w =
     (let start_date = (case start_date of None \<Rightarrow> ''30daysAgo'' | Some s \<Rightarrow> s);
          end_date = (case end_date of None \<Rightarrow> ''today'' | Some s \<Rightarrow> s);
          metrics = [''sessions'', ''users'', ''pageviews'', ''bounceRate'', ''averageSessionDuration''];
          dimensions = [''date'']
      in get_data env self metrics (Some dimensions) (Some start_date) (Some end_date) w)"

definition ga_get_traffic_sources ::
  "('f, 'd, 'w) env \<Rightarrow> ga_connector \<Rightarrow> string option \<Rightarrow> string option \<Rightarrow> 'w
     \<Rightarrow> (py_error + ('f, 'd) dataframe) \<times> 'w" where
  "ga_get_traffic_sources env self start_date end_date w =
     (let start_date = (case start_date of None \<Rightarrow> ''30daysAgo'' | Some s \<Rightarrow> s);
          end_date = (case end_date of None \<Rightarrow> ''today'' | Some s \<Rightarrow> s);
          metrics = [''sessions'', ''users''];
          dimensions = [''source'', ''medium'']
      in get_data env self metrics (Some dimensions) (Some start_date) (Some end_date) w)"

section \<open>SimilarwebConnector\<close>

definition SimilarwebConnector :: "string \<Rightarrow> base_connector" where
  "SimilarwebConnector key =
     \<lparr>api_key = key,
      base_url = ''https://api.similarweb.com/v1'',
      rate_limit_requests = 100,
      rate_limit_window = 3600\<rparr>"

definition sw_get_available_datasets ::
  "base_connector \<Rightarrow> 'w \<Rightarrow> (string \<times> string) list list \<times> 'w" where
  "sw_get_available_datasets self w =
     ([[(''name'', ''website_overview''), (''description'', ''Website traffic overview'')],
       [(''name'', ''traffic_sources''), (''description'', ''Website traffic sources'')],
       [(''name'', ''audience_interests''), (''description'', ''Audience interests'')],
       [(''name'', ''similar_sites''), (''description'', ''Similar websites'')],
       [(''name'', ''top_pages''), (''description'', ''Top performing pages'')]],
      w)"

definition sw_overview_request ::
  "string \<Rightarrow> string \<Rightarrow> string \<Rightarrow> string option \<Rightarrow> string option \<Rightarrow> 'f request" where
  \<comment> \<open>lines 204-213: the call passes the endpoint and the parameters, and no method\<close>
  "sw_overview_request domain start_date end_date country granularity =
     (let country = (case country of None \<Rightarrow> ''world'' | Some c \<Rightarrow> c);
          granularity = (case granularity of None \<Rightarrow> ''monthly'' | Some g \<Rightarrow> g);
          ps = [(''start_date'', start_date),
                (''end_date'', end_date),
                (''country'', country),
                (''granularity'', granularity),
                (''main_domain_only'', ''false'')]
      in \<lparr>endpoint = ''website/'' @ domain @ ''/total-traffic-and-engagement/visits'',
          http_method = None,
          params = Some ps,
          data = None\<rparr>)"

definition sw_table ::
  "('f, 'd, 'w) env \<Rightarrow> string \<Rightarrow> (string \<times> 'f json) list \<Rightarrow> py_error + ('f, 'd) dataframe" where
  \<comment> \<open>\<^verbatim>\<open>get_website_overview\<close> from the response on, lines 215-225\<close>
  "sw_table env domain response =
     (case map_of response ''visits'' of
        None \<Rightarrow> Inr DataFrame_empty
      | Some visits_data \<Rightarrow>
     (case DataFrame env visits_data of
        Inl e \<Rightarrow> Inl e
      | Inr df \<Rightarrow>
     (case convert_date env (frame_setitem_scalar df (JStr ''domain'') (CObj (JStr domain))) of
        Inl e \<Rightarrow> Inl e
      | Inr df' \<Rightarrow> validate_data env df')))"

definition get_website_overview ::
  "('f, 'd, 'w) env \<Rightarrow> base_connector \<Rightarrow> string \<Rightarrow> string \<Rightarrow> string \<Rightarrow> string option
     \<Rightarrow> string option \<Rightarrow> 'w \<Rightarrow> (py_error + ('f, 'd) dataframe) \<times> 'w" where
  "get_website_overview env self domain start_date end_date country granularity w =
     (case make_request env (sw_overview_request domain start_date end_date country granularity) w of
        (Inl e, w') \<Rightarrow> (Inl e, w')
      | (Inr response, w') \<Rightarrow> (sw_table env domain response, w'))"

definition sw_get_traffic_sources ::
  "('f, 'd, 'w) env \<Rightarrow> base_connector \<Rightarrow> string \<Rightarrow> string \<Rightarrow> string \<Rightarrow> string option \<Rightarrow> 'w
     \<Rightarrow> (py_error + ('f, 'd) dataframe option) \<times> 'w" where
  \<comment> \<open>lines 227-246: the body builds \<open>params\<close> and ends; a Python function that ends
      without \<^verbatim>\<open>return\<close> returns \<open>None\<close>, here the \<open>None\<close> of the option type\<close>
  "sw_get_traffic_sources env self domain start_date end_date country w =
     (let country = (case country of None \<Rightarrow> ''world'' | Some c \<Rightarrow> c);
          ps = [(''start_date'', start_date),
                (''end_date'', end_date),
                (''country'', country),
                (''main_domain_only'', ''false'')]
      in (Inr None, w))"

section \<open>Reading a response by hand\<close>

text \<open>
  What the loops of \<^verbatim>\<open>get_data\<close> read from a row, as functions of their own, to state
  which responses the properties below are about. Each is \<open>None\<close> where the access
  raises.
\<close>

definition row_items :: "'f json \<Rightarrow> string \<Rightarrow> 'f json list option" where
  \<comment> \<open>the items of \<^verbatim>\<open>row.get(key, [])\<close>\<close>
  "row_items row key =
     (case py_get row key (JArr []) of
        Inl e \<Rightarrow> None
      | Inr v \<Rightarrow> (case py_iter v of Inl e \<Rightarrow> None | Inr xs \<Rightarrow> Some xs))"

fun item_values :: "'f json list \<Rightarrow> 'f json list option" where
  \<comment> \<open>\<^verbatim>\<open>x['value']\<close> for each item\<close>
  "item_values [] = Some []"
| "item_values (x # xs) =
     (case py_getitem x ''value'' of
        Inl e \<Rightarrow> None
      | Inr v \<Rightarrow> (case item_values xs of None \<Rightarrow> None | Some vs \<Rightarrow> Some (v # vs)))"

definition row_values :: "'f json \<Rightarrow> string \<Rightarrow> 'f json list option" where
  "row_values row key =
     (case row_items row key of None \<Rightarrow> None | Some xs \<Rightarrow> item_values xs)"

definition row_fits :: "'f json list \<Rightarrow> 'f json list \<Rightarrow> 'f json \<Rightarrow> bool" where
  \<comment> \<open>a row has no more dimension values than there are dimension headers, and no more
      metric values than there are metric headers\<close>
  "row_fits dimension_headers metric_headers row =
     ((case row_items row ''dimensionValues'' of
         None \<Rightarrow> False
       | Some dvs \<Rightarrow> length dvs \<le> length dimension_headers) \<and>
      (case row_items row ''metricValues'' of
         None \<Rightarrow> False
       | Some mvs \<Rightarrow> length mvs \<le> length metric_headers))"

definition row_matches :: "'f json list \<Rightarrow> 'f json list \<Rightarrow> 'f json \<Rightarrow> bool" where
  \<comment> \<open>a row has one dimension value per dimension header and one metric value per
      metric header\<close>
  "row_matches dimension_headers metric_headers row =
     ((case row_items row ''dimensionValues'' of
         None \<Rightarrow> False
       | Some dvs \<Rightarrow> length dvs = length dimension_headers) \<and>
      (case row_items row ''metricValues'' of
         None \<Rightarrow> False
       | Some mvs \<Rightarrow> length mvs = length metric_headers))"

section \<open>Stand-ins for the collaborators\<close>

text \<open>
  One concrete environment, to run the operations on examples. A float is written as
  Python prints it, a timestamp as its text, and the state of the base class is the
  number of requests sent. Every request is answered with the same response.
\<close>

fun mock_float :: "string json \<Rightarrow> py_error + string" where
  \<comment> \<open>converts the strings that the examples use, and raises on everything else\<close>
  "mock_float (JStr s) =
     (if s = ''10'' then Inr ''10.0''
      else if s = ''8'' then Inr ''8.0''
      else if s = ''123.45'' then Inr ''123.45''
      else Inl ValueError)"
| "mock_float JNull = Inl TypeError"
| "mock_float (JBool b) = Inl TypeError"
| "mock_float (JInt n) = Inl TypeError"
| "mock_float (JFloat x) = Inl TypeError"
| "mock_float (JArr xs) = Inl TypeError"
| "mock_float (JObj kvs) = Inl TypeError"

fun mock_date :: "(string, string) cell \<Rightarrow> string option" where
  "mock_date (CObj (JStr s)) =
     (if s \<noteq> [] \<and> list_all (\<lambda>c. c \<in> set ''0123456789-'') s then Some s else None)"
| "mock_date (CObj JNull) = None"
| "mock_date (CObj (JBool b)) = None"
| "mock_date (CObj (JInt n)) = None"
| "mock_date (CObj (JFloat x)) = None"
| "mock_date (CObj (JArr xs)) = None"
| "mock_date (CObj (JObj kvs)) = None"
| "mock_date (CFloat x) = None"
| "mock_date (CTime d) = Some d"
| "mock_date CNaN = Some ''NaT''"

definition mock_to_datetime :: "(string, string) cell list \<Rightarrow> py_error + string list" where
  "mock_to_datetime vs =
     (if list_all (\<lambda>v. mock_date v \<noteq> None) vs
      then Inr (map (\<lambda>v. case mock_date v of None \<Rightarrow> [] | Some d \<Rightarrow> d) vs)
      else Inl ValueError)"

definition mock_env :: "(string \<times> string json) list \<Rightarrow> (string, string, nat) env" where
  "mock_env response =
     \<lparr>make_request = (\<lambda>r w. (Inr response, Suc w)),
      py_float = mock_float,
      to_datetime = mock_to_datetime,
      valid = (\<lambda>df. True),
      frame_other = (\<lambda>v. Inl ValueError)\<rparr>"

definition strict_env :: "(string \<times> string json) list \<Rightarrow> (string, string, nat) env" where
  \<comment> \<open>an environment in which every conversion and the validation fail\<close>
  "strict_env response =
     \<lparr>make_request = (\<lambda>r w. (Inr response, Suc w)),
      py_float = (\<lambda>v. Inl ValueError),
      to_datetime = (\<lambda>vs. Inl ValueError),
      valid = (\<lambda>df. False),
      frame_other = (\<lambda>v. Inl ValueError)\<rparr>"

section \<open>Example responses\<close>

text \<open>
  The response of the traffic-sources scenario with the table it is turned into; a
  response whose list of rows is empty; a response with a date and a metric value
  \<open>"123.45"\<close> with its table; a response that has rows and no headers; and a response
  with a metric value that is not a number; a response whose dimension header and
  metric header have the same name, with its table; and a response with a metric value
  that is not a number in a row whose dimension value has no header.
\<close>

definition traffic_sources_response :: "(string \<times> 'f json) list" where
  "traffic_sources_response =
     [(''dimensionHeaders'', JArr [JObj [(''name'', JStr ''source'')],
                                   JObj [(''name'', JStr ''medium'')]]),
      (''metricHeaders'', JArr [JObj [(''name'', JStr ''sessions'')],
                                JObj [(''name'', JStr ''users'')]]),
      (''rows'', JArr [JObj [(''dimensionValues'', JArr [JObj [(''value'', JStr ''google'')],
                                                        JObj [(''value'', JStr ''organic'')]]),
                            (''metricValues'', JArr [JObj [(''value'', JStr ''10'')],
                                                     JObj [(''value'', JStr ''8'')]])]])]"

definition traffic_sources_table :: "'f \<Rightarrow> 'f \<Rightarrow> ('f, 'd) dataframe" where
  "traffic_sources_table sessions users =
     \<lparr>index_len = 1,
      cols = [(JStr ''source'', [CObj (JStr ''google'')]),
              (JStr ''medium'', [CObj (JStr ''organic'')]),
              (JStr ''sessions'', [CFloat sessions]),
              (JStr ''users'', [CFloat users])]\<rparr>"

definition empty_rows_response :: "(string \<times> 'f json) list" where
  "empty_rows_response =
     [(''dimensionHeaders'', JArr [JObj [(''name'', JStr ''date'')]]),
      (''metricHeaders'', JArr [JObj [(''name'', JStr ''sessions'')]]),
      (''rows'', JArr [])]"




definition nonnumeric_response :: "(string \<times> 'f json) list" where
  "nonnumeric_response =
     [(''dimensionHeaders'', JArr [JObj [(''name'', JStr ''source'')]]),
      (''metricHeaders'', JArr [JObj [(''name'', JStr ''sessions'')]]),
      (''rows'', JArr [JObj [(''dimensionValues'', JArr [JObj [(''value'', JStr ''google'')]]),
                            (''metricValues'', JArr [JObj [(''value'', JStr ''abc'')]])]])]"

definition same_name_response :: "(string \<times> 'f json) list" where
  "same_name_response =
     [(''dimensionHeaders'', JArr [JObj [(''name'', JStr ''x'')]]),
      (''metricHeaders'', JArr [JObj [(''name'', JStr ''x'')]]),
      (''rows'', JArr [JObj [(''dimensionValues'', JArr [JObj [(''value'', JStr ''google'')]]),
                            (''metricValues'', JArr [JObj [(''value'', JStr ''10'')]])]])]"

definition unheaded_nonnumeric_response :: "(string \<times> 'f json) list" where
  "unheaded_nonnumeric_response =
     [(''metricHeaders'', JArr [JObj [(''name'', JStr ''sessions'')]]),
      (''rows'', JArr [JObj [(''dimensionValues'', JArr [JObj [(''value'', JStr ''google'')]]),
                            (''metricValues'', JArr [JObj [(''value'', JStr ''abc'')]])]])]"

definition same_name_table :: "(string, string) dataframe" where
  "same_name_table = \<lparr>index_len = 1, cols = [(JStr ''x'', [CFloat ''10.0''])]\<rparr>"

section \<open>Properties\<close>

subsection \<open>Lists of keys\<close>

lemma set_first_occ [simp]: "set (first_occ xs) = set xs"
  by (simp add: first_occ_def)

lemma distinct_first_occ [simp]: "distinct (first_occ xs)"
  by (simp add: first_occ_def)

lemma first_occ_distinct: "distinct xs \<Longrightarrow> first_occ xs = xs"
  by (simp add: first_occ_def distinct_remdups_id)

lemma remdups_append_filter:
  "remdups (xs @ ys) = filter (\<lambda>x. x \<notin> set ys) (remdups xs) @ remdups ys"
  by (induction xs) auto

lemma first_occ_append:
  "first_occ (xs @ ys) = first_occ xs @ filter (\<lambda>y. y \<notin> set xs) (first_occ ys)"
  by (simp add: first_occ_def remdups_append_filter rev_filter)

lemma first_occ_absorb: "first_occ (first_occ xs @ ys) = first_occ (xs @ ys)"
  by (simp add: first_occ_append set_first_occ first_occ_distinct distinct_first_occ)

lemma first_occ_covered:
  "distinct ks \<Longrightarrow> set ys \<subseteq> set ks \<Longrightarrow> first_occ (ks @ ys) = ks"
proof -
  assume d: "distinct ks" and s: "set ys \<subseteq> set ks"
  have "filter (\<lambda>y. y \<notin> set ks) (first_occ ys) = []"
    using s by (auto simp: filter_empty_conv set_first_occ)
  then show ?thesis using d by (simp add: first_occ_append first_occ_distinct)
qed

lemma map_fst_dict_set:
  "map fst (dict_set d k v) = (if k \<in> fst ` set d then map fst d else map fst d @ [k])"
  by (induction d) force+

lemma map_of_dict_set: "map_of (dict_set d k v) = (map_of d)(k \<mapsto> v)"
  by (induction d) (auto simp: fun_eq_iff)

lemma keys_dict_set:
  "distinct (map fst d) \<Longrightarrow> map fst (dict_set d k v) = first_occ (map fst d @ [k])"
  by (auto simp: map_fst_dict_set first_occ_append first_occ_distinct first_occ_def [of "[k]"])

lemma distinct_keys_dict_set:
  "distinct (map fst d) \<Longrightarrow> distinct (map fst (dict_set d k v))"
  by (simp add: keys_dict_set distinct_first_occ)

lemma first_occ_concat_same:
  assumes "recs \<noteq> []" and "\<forall>r\<in>set recs. map fst r = ks" and "distinct ks"
  shows "first_occ (concat (map (map fst) recs)) = ks"
proof -
  from assms(1) obtain r rest where recs: "recs = r # rest" by (cases recs) auto
  with assms(2) have "concat (map (map fst) recs) = ks @ concat (map (map fst) rest)"
    and "set (concat (map (map fst) rest)) \<subseteq> set ks"
    by auto
  with assms(3) show ?thesis by (simp add: first_occ_covered)
qed

lemma is_JStr_hashable: "is_JStr v \<Longrightarrow> hashable v"
  by (cases v) simp_all

lemma list_all_is_JStr_hashable: "list_all is_JStr vs \<Longrightarrow> list_all hashable vs"
  by (induction vs) (simp_all add: is_JStr_hashable)

subsection \<open>The stand-ins\<close>

lemma mock_env_request: "make_request (mock_env response) r w = (Inr response, Suc w)"
  by (simp add: mock_env_def)

lemma mock_float_str: "is_JStr v \<Longrightarrow> mock_float v = Inl e \<Longrightarrow> e = ValueError"
  by (cases v) (auto split: if_splits)

subsection \<open>The catalogs\<close>

text \<open>
  C7. \<^verbatim>\<open>get_available_datasets\<close> of either connector takes no environment, so it sends
  no request, and returns the state of the base class as it got it. Its result is the
  same for every connector instance and every state, so two calls give the same catalog.
  The GA4 catalog has ten entries: the metrics sessions, users, pageviews, bounceRate,
  sessionDuration, then the dimensions date, country, deviceCategory, source, medium.
\<close>

theorem get_available_datasets_fixed:
  "snd (ga_get_available_datasets self w) = w \<and>
   snd (sw_get_available_datasets sw w) = w \<and>
   fst (ga_get_available_datasets self w) = fst (ga_get_available_datasets self' w') \<and>
   fst (sw_get_available_datasets sw w) = fst (sw_get_available_datasets sw' w') \<and>
   ga_get_available_datasets self (snd (ga_get_available_datasets self w))
     = ga_get_available_datasets self w \<and>
   sw_get_available_datasets sw (snd (sw_get_available_datasets sw w))
     = sw_get_available_datasets sw w \<and>
   map (\<lambda>d. (map_of d ''name'', map_of d ''type'')) (fst (ga_get_available_datasets self w)) =
     [(Some ''sessions'', Some ''metric''),
      (Some ''users'', Some ''metric''),
      (Some ''pageviews'', Some ''metric''),
      (Some ''bounceRate'', Some ''metric''),
      (Some ''sessionDuration'', Some ''metric''),
      (Some ''date'', Some ''dimension''),
      (Some ''country'', Some ''dimension''),
      (Some ''deviceCategory'', Some ''dimension''),
      (Some ''source'', Some ''dimension''),
      (Some ''medium'', Some ''dimension'')]"
  by (simp add: ga_get_available_datasets_def sw_get_available_datasets_def)

subsection \<open>The request of \<^verbatim>\<open>get_data\<close>\<close>

text \<open>
  C8. \<^verbatim>\<open>get_data\<close> sends one request and works on its response. The request goes to
  \<^verbatim>\<open>properties/{property_id}:runReport\<close> with method POST and no query parameters.
  Its body has one date range, with the start and the end given or else
  \<^verbatim>\<open>30daysAgo\<close> and \<^verbatim>\<open>today\<close>; the metrics as one \<^verbatim>\<open>{name: m}\<close> per metric, in
  order; and the dimensions likewise, \<^verbatim>\<open>date\<close> alone if none are given.
\<close>

theorem get_data_request:
  "get_data env self metrics dimensions start_date end_date w =
     (case make_request env
        \<lparr>endpoint = ''properties/'' @ property_id self @ '':runReport'',
         http_method = Some ''POST'',
         params = None,
         data = Some (JObj
           [(''dateRanges'',
               JArr [JObj [(''startDate'',
                              JStr (case start_date of None \<Rightarrow> ''30daysAgo'' | Some s \<Rightarrow> s)),
                           (''endDate'',
                              JStr (case end_date of None \<Rightarrow> ''today'' | Some s \<Rightarrow> s))]]),
            (''metrics'', JArr (map (\<lambda>m. JObj [(''name'', JStr m)]) metrics)),
            (''dimensions'',
               JArr (map (\<lambda>d. JObj [(''name'', JStr d)])
                      (case dimensions of None \<Rightarrow> [''date''] | Some ds \<Rightarrow> ds)))])\<rparr> w of
        (Inl e, w') \<Rightarrow> (Inl e, w')
      | (Inr response, w') \<Rightarrow> (ga_table env response, w'))"
  by (simp add: get_data_def ga_request_def)

subsection \<open>A response without rows\<close>

text \<open>
  C2. When the response to the request of \<^verbatim>\<open>get_data\<close> has no key \<^verbatim>\<open>rows\<close>,
  \<^verbatim>\<open>get_data\<close> returns the empty table, which has no rows, and raises nothing. This
  holds whatever else the response holds and whatever the conversions and the
  validation would do: none of them is reached.
\<close>

theorem get_data_without_rows:
  fixes env :: "('f, 'd, 'w) env"
  assumes "make_request env (ga_request self metrics dimensions start_date end_date) w
             = (Inr response, w')"
    and "''rows'' \<notin> fst ` set response"
  shows "get_data env self metrics dimensions start_date end_date w = (Inr DataFrame_empty, w')
         \<and> index_len (DataFrame_empty :: ('f, 'd) dataframe) = 0"
proof -
  from assms(2) have "map_of response ''rows'' = None"
    by (simp add: map_of_eq_None_iff)
  with assms(1) show ?thesis
    by (simp add: get_data_def ga_table_def DataFrame_empty_def)
qed

theorem get_data_without_rows_witness:
  "get_data (strict_env [(''dimensionHeaders'', JInt 5), (''rowCount'', JInt 0)])
     (GoogleAnalyticsConnector ''token'' ''1234'') [''sessions''] None None None 0
   = (Inr DataFrame_empty, 1)"
  using get_data_without_rows
    [of "strict_env [(''dimensionHeaders'', JInt 5), (''rowCount'', JInt 0)]"
        "GoogleAnalyticsConnector ''token'' ''1234''" "[''sessions'']" None None None 0
        "[(''dimensionHeaders'', JInt 5), (''rowCount'', JInt 0)]" 1]
  by (simp add: strict_env_def)

subsection \<open>The Similarweb traffic sources\<close>

text \<open>
  C1. \<^verbatim>\<open>SimilarwebConnector.get_traffic_sources\<close> as the source has it: for every input it
  returns \<open>None\<close>, not a table, and leaves the state of the base class as it was, so it
  has sent no request.
\<close>

theorem sw_get_traffic_sources_returns_None:
  "sw_get_traffic_sources env self domain start_date end_date country w = (Inr None, w)"
  by (simp add: sw_get_traffic_sources_def)

subsection \<open>Flattening\<close>


lemma add_dimensions_keys:
  "add_dimensions hs i vs rd = Inr rd' \<Longrightarrow> distinct (map fst rd) \<Longrightarrow> i \<le> length hs \<Longrightarrow>
     i + length vs \<le> length hs \<and> distinct (map fst rd') \<and>
     map fst rd' = first_occ (map fst rd @ take (length vs) (drop i hs))"
proof (induction vs arbitrary: i rd)
  case Nil
  then show ?case by (simp add: first_occ_distinct)
next
  case (Cons v vs)
  from Cons.prems(1) obtain x where
    i: "i < length hs" and
    rec: "add_dimensions hs (Suc i) vs (dict_set rd (hs ! i) (CObj x)) = Inr rd'"
    by (auto simp: py_index_def split: sum.splits if_splits)
  from i Cons.IH [OF rec distinct_keys_dict_set [OF Cons.prems(2)]]
  have le: "Suc i + length vs \<le> length hs" and d: "distinct (map fst rd')"
    and ks: "map fst rd' =
       first_occ (map fst (dict_set rd (hs ! i) (CObj x)) @ take (length vs) (drop (Suc i) hs))"
    by simp_all
  have "take (length (v # vs)) (drop i hs) = hs ! i # take (length vs) (drop (Suc i) hs)"
    using i by (simp add: Cons_nth_drop_Suc [symmetric])
  then show ?case
    using le d ks by (simp add: keys_dict_set [OF Cons.prems(2)] first_occ_absorb)
qed

lemma add_metrics_keys:
  "add_metrics fl hs i vs rd = Inr rd' \<Longrightarrow> distinct (map fst rd) \<Longrightarrow> i \<le> length hs \<Longrightarrow>
     i + length vs \<le> length hs \<and> distinct (map fst rd') \<and>
     map fst rd' = first_occ (map fst rd @ take (length vs) (drop i hs))"
proof (induction vs arbitrary: i rd)
  case Nil
  then show ?case by (simp add: first_occ_distinct)
next
  case (Cons v vs)
  from Cons.prems(1) obtain x where
    i: "i < length hs" and
    rec: "add_metrics fl hs (Suc i) vs (dict_set rd (hs ! i) (CFloat x)) = Inr rd'"
    by (auto simp: py_index_def split: sum.splits if_splits)
  from i Cons.IH [OF rec distinct_keys_dict_set [OF Cons.prems(2)]]
  have le: "Suc i + length vs \<le> length hs" and d: "distinct (map fst rd')"
    and ks: "map fst rd' =
       first_occ (map fst (dict_set rd (hs ! i) (CFloat x)) @ take (length vs) (drop (Suc i) hs))"
    by simp_all
  have "take (length (v # vs)) (drop i hs) = hs ! i # take (length vs) (drop (Suc i) hs)"
    using i by (simp add: Cons_nth_drop_Suc [symmetric])
  then show ?case
    using le d ks by (simp add: keys_dict_set [OF Cons.prems(2)] first_occ_absorb)
qed

lemma flatten_row_keys:
  assumes "flatten_row fl dh mh row = Inr rd"
  shows "\<exists>dvs mvs. row_items row ''dimensionValues'' = Some dvs \<and>
           row_items row ''metricValues'' = Some mvs \<and>
           length dvs \<le> length dh \<and> length mvs \<le> length mh \<and>
           map fst rd = first_occ (take (length dvs) dh @ take (length mvs) mh)"
proof -
  from assms obtain dv dvs rd1 mv mvs where
    dv: "py_get row ''dimensionValues'' (JArr []) = Inr dv" "py_iter dv = Inr dvs" and
    a1: "add_dimensions dh 0 dvs [] = Inr rd1" and
    mv: "py_get row ''metricValues'' (JArr []) = Inr mv" "py_iter mv = Inr mvs" and
    a2: "add_metrics fl mh 0 mvs rd1 = Inr rd"
    by (auto simp: flatten_row_def split: sum.splits)
  from add_dimensions_keys [OF a1] have
    k1: "length dvs \<le> length dh" "distinct (map fst rd1)"
        "map fst rd1 = first_occ (take (length dvs) dh)"
    by simp_all
  from add_metrics_keys [OF a2 k1(2)] have
    k2: "length mvs \<le> length mh"
        "map fst rd = first_occ (map fst rd1 @ take (length mvs) mh)"
    by simp_all
  show ?thesis
    using dv mv k1 k2 by (simp add: row_items_def first_occ_absorb)
qed

lemma flatten_rows_nth:
  "flatten_rows fl dh mh rs = Inr recs \<Longrightarrow>
     length recs = length rs \<and> (\<forall>r<length rs. flatten_row fl dh mh (rs ! r) = Inr (recs ! r))"
proof (induction rs arbitrary: recs)
  case Nil
  then show ?case by simp
next
  case (Cons row rs)
  from Cons.prems obtain rd rest where
    rd: "flatten_row fl dh mh row = Inr rd" and
    rest: "flatten_rows fl dh mh rs = Inr rest" and
    recs: "recs = rd # rest"
    by (auto split: sum.splits)
  from Cons.IH [OF rest] rd recs show ?case
    by (auto simp: nth_Cons split: nat.splits)
qed

lemma validate_data_Inr: "validate_data env df = Inr t \<Longrightarrow> t = df"
  by (simp add: validate_data_def split: if_splits)

lemma convert_date_Inr:
  assumes "convert_date env df = Inr df'"
  shows "index_len df' = index_len df"
    and "frame_columns df' = frame_columns df"
    and "l \<noteq> JStr ''date'' \<Longrightarrow> map_of (cols df') l = map_of (cols df) l"
    and "\<exists>vs ds. map_of (cols df) (JStr ''date'') = Some vs \<and> to_datetime env vs = Inr ds \<and>
           map_of (cols df') (JStr ''date'') = Some (align (index_len df) (map CTime ds))"
proof -
  from assms obtain vs ds where
    vs: "map_of (cols df) (JStr ''date'') = Some vs" and
    ds: "to_datetime env vs = Inr ds" and
    df': "df' = frame_setitem df (JStr ''date'') (map CTime ds)"
    by (auto simp: convert_date_def frame_getitem_def split: sum.splits option.splits)
  from vs have "JStr ''date'' \<in> fst ` set (cols df)"
    by (metis map_of_eq_None_iff option.distinct(1))
  then show "frame_columns df' = frame_columns df"
    by (simp add: df' frame_columns_def frame_setitem_def map_fst_dict_set)
  show "index_len df' = index_len df"
    by (simp add: df' frame_setitem_def)
  show "l \<noteq> JStr ''date'' \<Longrightarrow> map_of (cols df') l = map_of (cols df) l"
    by (simp add: df' frame_setitem_def map_of_dict_set)
  show "\<exists>vs ds. map_of (cols df) (JStr ''date'') = Some vs \<and> to_datetime env vs = Inr ds \<and>
           map_of (cols df') (JStr ''date'') = Some (align (index_len df) (map CTime ds))"
    using vs ds by (simp add: df' frame_setitem_def map_of_dict_set)
qed

lemma frame_columns_records:
  "frame_columns (DataFrame_records recs) = first_occ (concat (map (map fst) recs))"
  by (simp add: frame_columns_def DataFrame_records_def comp_def)

lemma map_of_cols_records:
  "map_of (cols (DataFrame_records recs)) l =
     (if l \<in> set (concat (map (map fst) recs))
      then Some (map (\<lambda>r. case map_of r l of None \<Rightarrow> CNaN | Some v \<Rightarrow> v) recs)
      else None)"
  by (simp add: DataFrame_records_def map_of_map_restrict restrict_map_def)

lemma ga_table_Inr:
  fixes env :: "('f, 'd, 'w) env"
  assumes "ga_table env response = Inr t" and "map_of response ''rows'' = Some rows"
  shows "\<exists>dh mh rs recs.
           response_headers response ''dimensionHeaders'' = Inr dh \<and>
           response_headers response ''metricHeaders'' = Inr mh \<and>
           py_iter rows = Inr rs \<and>
           flatten_rows (py_float env) dh mh rs = Inr recs \<and>
           index_len t = length recs \<and>
           frame_columns t = first_occ (concat (map (map fst) recs)) \<and>
           (\<forall>l. l \<noteq> JStr ''date'' \<longrightarrow> l \<in> set (concat (map (map fst) recs)) \<longrightarrow>
              map_of (cols t) l =
                Some (map (\<lambda>r. case map_of r l of None \<Rightarrow> CNaN | Some v \<Rightarrow> v) recs))"
proof -
  from assms obtain dh mh rs recs where
    h: "response_headers response ''dimensionHeaders'' = Inr dh"
       "response_headers response ''metricHeaders'' = Inr mh"
       "py_iter rows = Inr rs"
       "flatten_rows (py_float env) dh mh rs = Inr recs" and
    t: "(\<exists>df'. convert_date env (DataFrame_records recs) = Inr df' \<and> validate_data env df' = Inr t)
        \<or> validate_data env (DataFrame_records recs) = Inr t"
    by (auto simp: ga_table_def Let_def split: sum.splits if_splits)
  from t have
    "index_len t = index_len (DataFrame_records recs :: ('f, 'd) dataframe) \<and>
     frame_columns t = frame_columns (DataFrame_records recs :: ('f, 'd) dataframe) \<and>
     (\<forall>l. l \<noteq> JStr ''date'' \<longrightarrow>
        map_of (cols t) l = map_of (cols (DataFrame_records recs :: ('f, 'd) dataframe)) l)"
  proof
    assume "\<exists>df'. convert_date env (DataFrame_records recs) = Inr df' \<and> validate_data env df' = Inr t"
    then obtain df' where c: "convert_date env (DataFrame_records recs) = Inr df'"
      and v: "validate_data env df' = Inr t" by blast
    from validate_data_Inr [OF v] convert_date_Inr(1-3) [OF c] show ?thesis
      by simp
  next
    assume "validate_data env (DataFrame_records recs) = Inr t"
    from validate_data_Inr [OF this] show ?thesis
      by simp
  qed
  then have
    "index_len t = length recs \<and>
     frame_columns t = first_occ (concat (map (map fst) recs)) \<and>
     (\<forall>l. l \<noteq> JStr ''date'' \<longrightarrow> l \<in> set (concat (map (map fst) recs)) \<longrightarrow>
        map_of (cols t) l =
          Some (map (\<lambda>r. case map_of r l of None \<Rightarrow> CNaN | Some v \<Rightarrow> v) recs))"
    by (simp add: frame_columns_records map_of_cols_records) (simp add: DataFrame_records_def)
  with h show ?thesis by blast
qed

lemma traffic_sources_flattened:
  assumes "fl (JStr ''10'') = Inr ten" and "fl (JStr ''8'') = Inr eight"
  shows "flatten_rows fl [JStr ''source'', JStr ''medium''] [JStr ''sessions'', JStr ''users'']
           [JObj [(''dimensionValues'', JArr [JObj [(''value'', JStr ''google'')],
                                              JObj [(''value'', JStr ''organic'')]]),
                  (''metricValues'', JArr [JObj [(''value'', JStr ''10'')],
                                           JObj [(''value'', JStr ''8'')]])]]
         = Inr [[(JStr ''source'', CObj (JStr ''google'')),
                 (JStr ''medium'', CObj (JStr ''organic'')),
                 (JStr ''sessions'', CFloat ten),
                 (JStr ''users'', CFloat eight)]]"
  using assms by (simp add: flatten_row_def py_index_def)

lemma traffic_sources_frame:
  "DataFrame_records [[(JStr ''source'', CObj (JStr ''google'')),
                 (JStr ''medium'', CObj (JStr ''organic'')),
                 (JStr ''sessions'', CFloat ten),
                 (JStr ''users'', CFloat eight)]] = traffic_sources_table ten eight"
  by (simp add: DataFrame_records_def traffic_sources_table_def first_occ_def)

lemma ga_table_traffic_sources:
  assumes "py_float env (JStr ''10'') = Inr ten" and "py_float env (JStr ''8'') = Inr eight"
  shows "ga_table env traffic_sources_response = validate_data env (traffic_sources_table ten eight)"
proof -
  have "frame_columns (traffic_sources_table ten eight :: ('a, 'b) dataframe) =
          [JStr ''source'', JStr ''medium'', JStr ''sessions'', JStr ''users'']"
    by (simp add: frame_columns_def traffic_sources_table_def)
  then show ?thesis
    by (simp add: ga_table_def traffic_sources_response_def response_headers_def
        traffic_sources_frame traffic_sources_flattened [OF assms] del: flatten_rows.simps)
qed


subsection \<open>The traffic-sources scenario\<close>

text \<open>
  C5. \<^verbatim>\<open>GoogleAnalyticsConnector.get_traffic_sources()\<close> asks for the metrics sessions and
  users and the dimensions source and medium. When the answer is the response with these
  headers and the one row (google, organic; "10", "8"), \<open>float\<close> gives \<open>ten\<close> for
  \<open>"10"\<close> and \<open>eight\<close> for \<open>"8"\<close>, and the validation accepts the table, the result is
  the table of one row \<open>{source: google, medium: organic, sessions: ten, users: eight}\<close>.
\<close>

theorem ga_get_traffic_sources_scenario:
  fixes env :: "('f, 'd, 'w) env"
  assumes "make_request env
             \<lparr>endpoint = ''properties/'' @ property_id self @ '':runReport'',
              http_method = Some ''POST'',
              params = None,
              data = Some (JObj
                [(''dateRanges'',
                    JArr [JObj [(''startDate'', JStr ''30daysAgo''), (''endDate'', JStr ''today'')]]),
                 (''metrics'', JArr [JObj [(''name'', JStr ''sessions'')],
                                     JObj [(''name'', JStr ''users'')]]),
                 (''dimensions'', JArr [JObj [(''name'', JStr ''source'')],
                                        JObj [(''name'', JStr ''medium'')]])])\<rparr> w
           = (Inr traffic_sources_response, w')"
    and "py_float env (JStr ''10'') = Inr ten"
    and "py_float env (JStr ''8'') = Inr eight"
    and "valid env (traffic_sources_table ten eight)"
  shows "ga_get_traffic_sources env self None None w = (Inr (traffic_sources_table ten eight), w') \<and>
         index_len (traffic_sources_table ten eight :: ('f, 'd) dataframe) = 1 \<and>
         frame_rows (traffic_sources_table ten eight :: ('f, 'd) dataframe) =
           [[(JStr ''source'', CObj (JStr ''google'')),
             (JStr ''medium'', CObj (JStr ''organic'')),
             (JStr ''sessions'', CFloat ten),
             (JStr ''users'', CFloat eight)]]"
proof -
  have "ga_table env traffic_sources_response = Inr (traffic_sources_table ten eight)"
    using assms(4) by (simp add: ga_table_traffic_sources [OF assms(2,3)] validate_data_def)
  with assms(1) have
    "ga_get_traffic_sources env self None None w = (Inr (traffic_sources_table ten eight), w')"
    by (simp add: ga_get_traffic_sources_def get_data_def ga_request_def)
  moreover have "frame_rows (traffic_sources_table ten eight :: ('f, 'd) dataframe) =
           [[(JStr ''source'', CObj (JStr ''google'')),
             (JStr ''medium'', CObj (JStr ''organic'')),
             (JStr ''sessions'', CFloat ten),
             (JStr ''users'', CFloat eight)]]"
    by (simp add: frame_rows_def traffic_sources_table_def)
  ultimately show ?thesis by (simp add: traffic_sources_table_def)
qed

theorem ga_get_traffic_sources_scenario_witness:
  "ga_get_traffic_sources (mock_env traffic_sources_response)
     (GoogleAnalyticsConnector ''token'' ''1234'') None None 0
   = (Inr (traffic_sources_table ''10.0'' ''8.0''), 1)"
  using ga_get_traffic_sources_scenario
    [of "mock_env traffic_sources_response" "GoogleAnalyticsConnector ''token'' ''1234''" 0 1
        "''10.0''" "''8.0''"]
  by (simp add: mock_env_def)

subsection \<open>Rows and columns of the table\<close>

text \<open>
  C3, as amended. Take a response with a list \<open>rows\<close> in which every row has one
  dimension value per dimension header and one metric value per metric header, the header
  names being strings. The table \<^verbatim>\<open>get_data\<close> returns for it has one row per entry of
  \<open>rows\<close>. If \<open>rows\<close> is not empty, its columns are the dimension header names followed by
  the metric header names, each name once, at the place where it first occurs; so they
  are exactly the dimension names followed by the metric names when no name occurs twice.
  If \<open>rows\<close> is empty, the table has no columns.
\<close>

theorem get_data_rows_and_columns:
  fixes env :: "('f, 'd, 'w) env"
  assumes req: "make_request env (ga_request self metrics dimensions start_date end_date) w
                  = (Inr response, w')"
    and rows: "map_of response ''rows'' = Some (JArr rs)"
    and dh: "response_headers response ''dimensionHeaders'' = Inr dh"
    and mh: "response_headers response ''metricHeaders'' = Inr mh"
    and str: "list_all is_JStr (dh @ mh)"
    and fit: "\<forall>row\<in>set rs. row_matches dh mh row"
    and res: "get_data env self metrics dimensions start_date end_date w = (Inr t, w'')"
  shows "index_len t = length rs \<and>
         (rs \<noteq> [] \<longrightarrow> frame_columns t = first_occ (dh @ mh)) \<and>
         (rs \<noteq> [] \<longrightarrow> distinct (dh @ mh) \<longrightarrow> frame_columns t = dh @ mh) \<and>
         (rs = [] \<longrightarrow> frame_columns t = [])"
proof -
  from req res have "ga_table env response = Inr t"
    by (simp add: get_data_def)
  from ga_table_Inr [OF this rows] dh mh
  obtain recs :: "('f json \<times> ('f, 'd) cell) list list" where
    recs: "flatten_rows (py_float env) dh mh rs = Inr recs" and
    len: "index_len t = length recs" and
    cs: "frame_columns t = first_occ (concat (map (map fst) recs))"
    by auto
  from flatten_rows_nth [OF recs] have
    n: "length recs = length rs" and
    each: "\<forall>r<length rs. flatten_row (py_float env) dh mh (rs ! r) = Inr (recs ! r)"
    by simp_all
  have keys: "\<forall>rd\<in>set recs. map fst rd = first_occ (dh @ mh)"
  proof
    fix rd assume "rd \<in> set recs"
    then obtain r where r: "r < length rs" and rd: "rd = recs ! r"
      using n by (metis in_set_conv_nth)
    from each r rd have "flatten_row (py_float env) dh mh (rs ! r) = Inr rd" by simp
    from flatten_row_keys [OF this] obtain dvs mvs where
      it: "row_items (rs ! r) ''dimensionValues'' = Some dvs"
          "row_items (rs ! r) ''metricValues'' = Some mvs" and
      ks: "map fst rd = first_occ (take (length dvs) dh @ take (length mvs) mh)"
      by blast
    from fit r have "row_matches dh mh (rs ! r)" by simp
    with it have "length dvs = length dh" "length mvs = length mh"
      by (simp_all add: row_matches_def)
    with ks show "map fst rd = first_occ (dh @ mh)" by simp
  qed
  have "rs \<noteq> [] \<Longrightarrow> frame_columns t = first_occ (dh @ mh)"
  proof -
    assume "rs \<noteq> []"
    with n have "recs \<noteq> []" by auto
    from first_occ_concat_same [OF this keys] cs show ?thesis
      by simp
  qed
  moreover have "rs = [] \<Longrightarrow> frame_columns t = []"
    using n cs by (simp add: first_occ_def)
  ultimately show ?thesis using len n by (simp add: first_occ_distinct)
qed

theorem get_data_rows_and_columns_witness:
  "get_data (mock_env traffic_sources_response)
     (GoogleAnalyticsConnector ''token'' ''1234'') [''sessions'', ''users'']
     (Some [''source'', ''medium'']) None None 0
   = (Inr (traffic_sources_table ''10.0'' ''8.0''), 1) \<and>
   index_len (traffic_sources_table ''10.0'' ''8.0'' :: (string, string) dataframe) = 1 \<and>
   frame_columns (traffic_sources_table ''10.0'' ''8.0'' :: (string, string) dataframe)
     = [JStr ''source'', JStr ''medium'', JStr ''sessions'', JStr ''users'']"
proof -
  have res: "get_data (mock_env traffic_sources_response)
        (GoogleAnalyticsConnector ''token'' ''1234'') [''sessions'', ''users'']
        (Some [''source'', ''medium'']) None None 0
      = (Inr (traffic_sources_table ''10.0'' ''8.0''), 1)"
    by (simp add: get_data_def mock_env_def ga_table_traffic_sources validate_data_def)
  have "index_len (traffic_sources_table ''10.0'' ''8.0'' :: (string, string) dataframe) = 1 \<and>
        frame_columns (traffic_sources_table ''10.0'' ''8.0'' :: (string, string) dataframe)
          = [JStr ''source'', JStr ''medium'', JStr ''sessions'', JStr ''users'']"
    using get_data_rows_and_columns
      [of "mock_env traffic_sources_response" "GoogleAnalyticsConnector ''token'' ''1234''"
          "[''sessions'', ''users'']" "Some [''source'', ''medium'']" None None 0
          traffic_sources_response 1
          "[JObj [(''dimensionValues'', JArr [JObj [(''value'', JStr ''google'')],
                                              JObj [(''value'', JStr ''organic'')]]),
                  (''metricValues'', JArr [JObj [(''value'', JStr ''10'')],
                                           JObj [(''value'', JStr ''8'')]])]]"
          "[JStr ''source'', JStr ''medium'']" "[JStr ''sessions'', JStr ''users'']"
          "traffic_sources_table ''10.0'' ''8.0''" 1, OF _ _ _ _ _ _ res]
    by (simp add: mock_env_def traffic_sources_response_def response_headers_def
        row_matches_def row_items_def first_occ_def)
  with res show ?thesis by simp
qed

text \<open>
  The claim C3 as it was stated also covers an empty list of rows. There the table has
  no column at all, whatever the headers are: the columns of the table come from the
  flattened rows, not from the headers.
\<close>

theorem get_data_empty_rows_no_columns:
  "get_data (mock_env empty_rows_response) (GoogleAnalyticsConnector ''token'' ''1234'')
     [''sessions''] None None None 0 = (Inr DataFrame_empty, 1) \<and>
   map_of (empty_rows_response :: (string \<times> string json) list) ''rows'' = Some (JArr []) \<and>
   response_headers (empty_rows_response :: (string \<times> string json) list) ''dimensionHeaders''
     = Inr [JStr ''date''] \<and>
   response_headers (empty_rows_response :: (string \<times> string json) list) ''metricHeaders''
     = Inr [JStr ''sessions''] \<and>
   frame_columns (DataFrame_empty :: (string, string) dataframe) = [] \<and>
   frame_columns (DataFrame_empty :: (string, string) dataframe)
     \<noteq> [JStr ''date''] @ [JStr ''sessions'']"
  by (simp add: get_data_def mock_env_def ga_table_def empty_rows_response_def
      response_headers_def DataFrame_records_def DataFrame_empty_def first_occ_def
      frame_columns_def validate_data_def)


subsection \<open>What a row binds\<close>


lemma item_values_length: "item_values xs = Some vals \<Longrightarrow> length vals = length xs"
  by (induction xs arbitrary: vals) (auto split: sum.splits option.splits)







subsection \<open>A metric value from the response to the table\<close>

lemma map_of_frame_rows:
  "r < index_len t \<Longrightarrow>
     map_of (frame_rows t ! r) l = map_option (\<lambda>vs. vs ! r) (map_of (cols t) l)"
  by (simp add: frame_rows_def map_of_map)





subsection \<open>When the flattening succeeds and when it fails\<close>

lemma add_dimensions_total:
  "item_values vs = Some vals \<Longrightarrow> list_all hashable hs \<Longrightarrow> i \<le> length hs \<Longrightarrow>
     (i + length vs \<le> length hs \<longrightarrow> (\<exists>rd'. add_dimensions hs i vs rd = Inr rd')) \<and>
     (length hs < i + length vs \<longrightarrow> add_dimensions hs i vs rd = Inl IndexError)"
proof (induction vs arbitrary: i rd vals)
  case Nil
  then show ?case by simp
next
  case (Cons v vs)
  from Cons.prems(1) obtain a vals' where
    a: "py_getitem v ''value'' = Inr a" and vals': "item_values vs = Some vals'"
    by (auto split: sum.splits option.splits)
  show ?case
  proof (cases "i < length hs")
    case True
    with Cons.prems(2) have h: "hashable (hs ! i)" by (simp add: list_all_length)
    from True have "Suc i \<le> length hs" by simp
    from Cons.IH [OF vals' Cons.prems(2) this, of "dict_set rd (hs ! i) (CObj a)"] a h True
    show ?thesis by (simp add: py_index_def)
  next
    case False
    with a show ?thesis by (simp add: py_index_def)
  qed
qed

lemma add_metrics_total:
  "item_values vs = Some vals \<Longrightarrow> list_all hashable hs \<Longrightarrow> i \<le> length hs \<Longrightarrow>
   \<forall>v\<in>set vals. \<exists>x. fl v = Inr x \<Longrightarrow>
     (i + length vs \<le> length hs \<longrightarrow> (\<exists>rd'. add_metrics fl hs i vs rd = Inr rd')) \<and>
     (length hs < i + length vs \<longrightarrow> add_metrics fl hs i vs rd = Inl IndexError)"
proof (induction vs arbitrary: i rd vals)
  case Nil
  then show ?case by simp
next
  case (Cons v vs)
  from Cons.prems(1) obtain a vals' where
    a: "py_getitem v ''value'' = Inr a" and vals': "item_values vs = Some vals'"
    and vals: "vals = a # vals'"
    by (auto split: sum.splits option.splits)
  from Cons.prems(4) vals obtain x where x: "fl a = Inr x"
    and rest: "\<forall>v\<in>set vals'. \<exists>x. fl v = Inr x" by auto
  show ?case
  proof (cases "i < length hs")
    case True
    with Cons.prems(2) have h: "hashable (hs ! i)" by (simp add: list_all_length)
    from True have "Suc i \<le> length hs" by simp
    from Cons.IH [OF vals' Cons.prems(2) this rest, of "dict_set rd (hs ! i) (CFloat x)"] a x h True
    show ?thesis by (simp add: py_index_def)
  next
    case False
    with a x show ?thesis by (simp add: py_index_def)
  qed
qed

lemma add_metrics_fits:
  "item_values vs = Some vals \<Longrightarrow> list_all hashable hs \<Longrightarrow> i + length vs \<le> length hs \<Longrightarrow>
   \<forall>v\<in>set vals. \<forall>e. fl v = Inl e \<longrightarrow> e = ValueError \<Longrightarrow>
     ((\<forall>v\<in>set vals. \<exists>x. fl v = Inr x) \<longrightarrow> (\<exists>rd'. add_metrics fl hs i vs rd = Inr rd')) \<and>
     ((\<exists>v\<in>set vals. fl v = Inl ValueError) \<longrightarrow> add_metrics fl hs i vs rd = Inl ValueError)"
proof (induction vs arbitrary: i rd vals)
  case Nil
  then show ?case by simp
next
  case (Cons v vs)
  from Cons.prems(1) obtain a vals' where
    a: "py_getitem v ''value'' = Inr a" and vals': "item_values vs = Some vals'"
    and vals: "vals = a # vals'"
    by (auto split: sum.splits option.splits)
  from Cons.prems(3) have i: "i < length hs" and le: "Suc i + length vs \<le> length hs" by simp_all
  with Cons.prems(2) have h: "hashable (hs ! i)" by (simp add: list_all_length)
  from Cons.prems(4) vals have rest: "\<forall>v\<in>set vals'. \<forall>e. fl v = Inl e \<longrightarrow> e = ValueError"
    by simp
  show ?case
  proof (cases "fl a")
    case (Inl e)
    with Cons.prems(4) vals have "e = ValueError" by simp
    with Inl a vals show ?thesis by auto
  next
    case (Inr x)
    from Cons.IH [OF vals' Cons.prems(2) le rest, of "dict_set rd (hs ! i) (CFloat x)"]
      a Inr h i vals
    show ?thesis by (auto simp: py_index_def)
  qed
qed

lemma row_values_SomeD:
  "row_values row key = Some vals \<Longrightarrow>
     \<exists>v xs. py_get row key (JArr []) = Inr v \<and> py_iter v = Inr xs \<and>
       row_items row key = Some xs \<and> item_values xs = Some vals \<and> length xs = length vals"
  by (auto simp: row_values_def row_items_def item_values_length
      split: sum.splits option.splits)

lemma flatten_row_total:
  assumes dv: "row_values row ''dimensionValues'' = Some dvals"
    and mv: "row_values row ''metricValues'' = Some mvals"
    and hs: "list_all hashable (dh @ mh)"
    and fl: "\<forall>v\<in>set mvals. \<exists>x. fl v = Inr x"
  shows "(row_fits dh mh row \<longrightarrow>
            (\<exists>rd :: ('f json \<times> ('f, 'd) cell) list. flatten_row fl dh mh row = Inr rd)) \<and>
         (\<not> row_fits dh mh row \<longrightarrow>
            flatten_row fl dh mh row = (Inl IndexError :: py_error + ('f json \<times> ('f, 'd) cell) list))"
proof -
  from row_values_SomeD [OF dv] obtain d dvs where
    d: "py_get row ''dimensionValues'' (JArr []) = Inr d" "py_iter d = Inr dvs"
       "row_items row ''dimensionValues'' = Some dvs" "item_values dvs = Some dvals"
    by blast
  from row_values_SomeD [OF mv] obtain m mvs where
    m: "py_get row ''metricValues'' (JArr []) = Inr m" "py_iter m = Inr mvs"
       "row_items row ''metricValues'' = Some mvs" "item_values mvs = Some mvals"
    by blast
  from hs have hd: "list_all hashable dh" and hm: "list_all hashable mh" by simp_all
  note dims = add_dimensions_total [OF d(4) hd, of 0 "[] :: ('f json \<times> ('f, 'd) cell) list"]
  show ?thesis
  proof (cases "length dvs \<le> length dh")
    case False
    with dims d m show ?thesis by (simp add: flatten_row_def row_fits_def)
  next
    case True
    with dims obtain rd1 :: "('f json \<times> ('f, 'd) cell) list" where rd1: "add_dimensions dh 0 dvs [] = Inr rd1" by auto
    from add_metrics_total [OF m(4) hm _ fl, of 0 rd1] rd1 d m True show ?thesis
      by (auto simp: flatten_row_def row_fits_def)
  qed
qed

lemma flatten_row_fits:
  assumes dv: "row_values row ''dimensionValues'' = Some dvals"
    and mv: "row_values row ''metricValues'' = Some mvals"
    and hs: "list_all hashable (dh @ mh)"
    and fit: "row_fits dh mh row"
    and fl: "\<forall>v\<in>set mvals. \<forall>e. fl v = Inl e \<longrightarrow> e = ValueError"
  shows "((\<forall>v\<in>set mvals. \<exists>x. fl v = Inr x) \<longrightarrow>
            (\<exists>rd :: ('f json \<times> ('f, 'd) cell) list. flatten_row fl dh mh row = Inr rd)) \<and>
         ((\<exists>v\<in>set mvals. fl v = Inl ValueError) \<longrightarrow>
            flatten_row fl dh mh row = (Inl ValueError :: py_error + ('f json \<times> ('f, 'd) cell) list))"
proof -
  from row_values_SomeD [OF dv] obtain d dvs where
    d: "py_get row ''dimensionValues'' (JArr []) = Inr d" "py_iter d = Inr dvs"
       "row_items row ''dimensionValues'' = Some dvs" "item_values dvs = Some dvals"
    by blast
  from row_values_SomeD [OF mv] obtain m mvs where
    m: "py_get row ''metricValues'' (JArr []) = Inr m" "py_iter m = Inr mvs"
       "row_items row ''metricValues'' = Some mvs" "item_values mvs = Some mvals"
    by blast
  from hs have hd: "list_all hashable dh" and hm: "list_all hashable mh" by simp_all
  from fit d(3) m(3) have le: "length dvs \<le> length dh" "length mvs \<le> length mh"
    by (simp_all add: row_fits_def)
  from add_dimensions_total [OF d(4) hd, of 0 "[] :: ('f json \<times> ('f, 'd) cell) list"] le
  obtain rd1 :: "('f json \<times> ('f, 'd) cell) list" where
    rd1: "add_dimensions dh 0 dvs [] = Inr rd1" by auto
  from add_metrics_fits [OF m(4) hm _ fl, of 0 rd1] le rd1 d m show ?thesis
    by (simp add: flatten_row_def)
qed

lemma flatten_rows_total:
  assumes "list_all hashable (dh @ mh)"
    and "\<forall>row\<in>set rs. \<exists>dvals mvals.
           row_values row ''dimensionValues'' = Some dvals \<and>
           row_values row ''metricValues'' = Some mvals \<and>
           (\<forall>v\<in>set mvals. \<exists>x. fl v = Inr x)"
  shows "((\<forall>row\<in>set rs. row_fits dh mh row) \<longrightarrow> (\<exists>recs :: ('f json \<times> ('f, 'd) cell) list list. flatten_rows fl dh mh rs = Inr recs)) \<and>
         ((\<exists>row\<in>set rs. \<not> row_fits dh mh row) \<longrightarrow> flatten_rows fl dh mh rs = (Inl IndexError :: py_error + ('f json \<times> ('f, 'd) cell) list list))"
  using assms(2)
proof (induction rs)
  case Nil
  then show ?case by simp
next
  case (Cons row rs)
  from Cons.prems obtain dvals mvals where
    "row_values row ''dimensionValues'' = Some dvals"
    "row_values row ''metricValues'' = Some mvals"
    "\<forall>v\<in>set mvals. \<exists>x. fl v = Inr x"
    by auto
  then have row:
    "(row_fits dh mh row \<longrightarrow>
        (\<exists>rd :: ('f json \<times> ('f, 'd) cell) list. flatten_row fl dh mh row = Inr rd)) \<and>
     (\<not> row_fits dh mh row \<longrightarrow>
        flatten_row fl dh mh row = (Inl IndexError :: py_error + ('f json \<times> ('f, 'd) cell) list))"
    using assms(1) by (intro flatten_row_total)
  from Cons.prems have ih:
    "((\<forall>row\<in>set rs. row_fits dh mh row) \<longrightarrow> (\<exists>recs :: ('f json \<times> ('f, 'd) cell) list list. flatten_rows fl dh mh rs = Inr recs)) \<and>
     ((\<exists>row\<in>set rs. \<not> row_fits dh mh row) \<longrightarrow> flatten_rows fl dh mh rs = (Inl IndexError :: py_error + ('f json \<times> ('f, 'd) cell) list list))"
    by (intro Cons.IH) simp
  show ?case
  proof (cases "row_fits dh mh row")
    case True
    with row obtain rd :: "('f json \<times> ('f, 'd) cell) list" where "flatten_row fl dh mh row = Inr rd" by auto
    with ih True show ?thesis by auto
  next
    case False
    with row show ?thesis by simp
  qed
qed

lemma flatten_rows_fits:
  assumes "list_all hashable (dh @ mh)"
    and "\<forall>row\<in>set rs. row_fits dh mh row \<and> (\<exists>dvals mvals.
           row_values row ''dimensionValues'' = Some dvals \<and>
           row_values row ''metricValues'' = Some mvals \<and>
           (\<forall>v\<in>set mvals. \<forall>e. fl v = Inl e \<longrightarrow> e = ValueError))"
  shows "((\<forall>row\<in>set rs. \<forall>mvals. row_values row ''metricValues'' = Some mvals \<longrightarrow>
              (\<forall>v\<in>set mvals. \<exists>x. fl v = Inr x)) \<longrightarrow>
            (\<exists>recs :: ('f json \<times> ('f, 'd) cell) list list. flatten_rows fl dh mh rs = Inr recs)) \<and>
         ((\<exists>row\<in>set rs. \<exists>mvals. row_values row ''metricValues'' = Some mvals \<and>
              (\<exists>v\<in>set mvals. fl v = Inl ValueError)) \<longrightarrow>
            flatten_rows fl dh mh rs = (Inl ValueError :: py_error + ('f json \<times> ('f, 'd) cell) list list))"
  using assms(2)
proof (induction rs)
  case Nil
  then show ?case by simp
next
  case (Cons row rs)
  from Cons.prems obtain dvals mvals where
    fit: "row_fits dh mh row" and
    v: "row_values row ''dimensionValues'' = Some dvals"
       "row_values row ''metricValues'' = Some mvals"
       "\<forall>v\<in>set mvals. \<forall>e. fl v = Inl e \<longrightarrow> e = ValueError"
    by auto
  have row:
    "((\<forall>v\<in>set mvals. \<exists>x. fl v = Inr x) \<longrightarrow>
        (\<exists>rd :: ('f json \<times> ('f, 'd) cell) list. flatten_row fl dh mh row = Inr rd)) \<and>
     ((\<exists>v\<in>set mvals. fl v = Inl ValueError) \<longrightarrow>
        flatten_row fl dh mh row = (Inl ValueError :: py_error + ('f json \<times> ('f, 'd) cell) list))"
    using v assms(1) fit by (intro flatten_row_fits)
  from Cons.prems have ih:
    "((\<forall>row\<in>set rs. \<forall>mvals. row_values row ''metricValues'' = Some mvals \<longrightarrow>
              (\<forall>v\<in>set mvals. \<exists>x. fl v = Inr x)) \<longrightarrow>
            (\<exists>recs :: ('f json \<times> ('f, 'd) cell) list list. flatten_rows fl dh mh rs = Inr recs)) \<and>
         ((\<exists>row\<in>set rs. \<exists>mvals. row_values row ''metricValues'' = Some mvals \<and>
              (\<exists>v\<in>set mvals. fl v = Inl ValueError)) \<longrightarrow>
            flatten_rows fl dh mh rs = (Inl ValueError :: py_error + ('f json \<times> ('f, 'd) cell) list list))"
    by (intro Cons.IH) simp
  show ?case
  proof (cases "\<forall>v\<in>set mvals. \<exists>x. fl v = Inr x")
    case True
    with row obtain rd :: "('f json \<times> ('f, 'd) cell) list" where rd: "flatten_row fl dh mh row = Inr rd" by auto
    from True have "\<not> (\<exists>v\<in>set mvals. fl v = Inl ValueError)" by auto
    with rd ih v(2) True show ?thesis by auto
  next
    case False
    then obtain u where u: "u \<in> set mvals" "\<forall>x. fl u \<noteq> Inr x" by auto
    with v(3) have "fl u = Inl ValueError" by (cases "fl u") auto
    with u row have "flatten_row fl dh mh row = (Inl ValueError :: py_error + ('f json \<times> ('f, 'd) cell) list)" by auto
    with False v(2) show ?thesis by auto
  qed
qed


lemma convert_date_succeeds:
  assumes "JStr ''date'' \<in> set (frame_columns df)"
    and "\<forall>vs. \<exists>ds. to_datetime env vs = Inr ds"
  shows "\<exists>df'. convert_date env df = Inr df'"
proof -
  from assms(1) have "map_of (cols df) (JStr ''date'') \<noteq> None"
    by (simp add: frame_columns_def map_of_eq_None_iff)
  then obtain vs where vs: "map_of (cols df) (JStr ''date'') = Some vs"
    by blast
  from assms(2) obtain ds where "to_datetime env vs = Inr ds" by blast
  with vs show ?thesis
    by (simp add: convert_date_def frame_getitem_def)
qed

lemma ga_table_returns:
  fixes env :: "('f, 'd, 'w) env"
  assumes rows: "map_of response ''rows'' = Some rows"
    and it: "py_iter rows = Inr rs"
    and dh: "response_headers response ''dimensionHeaders'' = Inr dh"
    and mh: "response_headers response ''metricHeaders'' = Inr mh"
    and hs: "list_all hashable (dh @ mh)"
    and shape: "\<forall>row\<in>set rs. \<exists>dvals mvals.
           row_values row ''dimensionValues'' = Some dvals \<and>
           row_values row ''metricValues'' = Some mvals \<and>
           (\<forall>v\<in>set mvals. \<exists>x. py_float env v = Inr x)"
    and fit: "\<forall>row\<in>set rs. row_fits dh mh row"
    and dates: "\<forall>vs. \<exists>ds. to_datetime env vs = Inr ds"
    and ok: "\<forall>df. valid env df"
  shows "\<exists>t. ga_table env response = Inr t"
proof -
  from flatten_rows_total [OF hs shape] fit
  obtain recs :: "('f json \<times> ('f, 'd) cell) list list" where
    recs: "flatten_rows (py_float env) dh mh rs = Inr recs"
    by blast
  define df :: "('f, 'd) dataframe" where "df = DataFrame_records recs"
  show ?thesis
  proof (cases "JStr ''date'' \<in> set (frame_columns df)")
    case True
    from convert_date_succeeds [OF True dates] obtain df' where
      "convert_date env df = Inr df'" by blast
    with True rows it dh mh recs ok show ?thesis
      by (simp add: ga_table_def df_def validate_data_def)
  next
    case False
    with rows it dh mh recs ok show ?thesis
      by (simp add: ga_table_def df_def validate_data_def)
  qed
qed

lemma ga_table_flatten_error:
  fixes env :: "('f, 'd, 'w) env"
  assumes "map_of response ''rows'' = Some rows"
    and "response_headers response ''dimensionHeaders'' = Inr dh"
    and "response_headers response ''metricHeaders'' = Inr mh"
    and "py_iter rows = Inr rs"
    and "flatten_rows (py_float env) dh mh rs
           = (Inl e :: py_error + ('f json \<times> ('f, 'd) cell) list list)"
  shows "ga_table env response = Inl e"
  using assms by (simp add: ga_table_def)



subsection \<open>What a row binds when names repeat\<close>

lemma add_dimensions_untouched:
  "add_dimensions hs i vs rd = Inr rd' \<Longrightarrow> \<forall>j<length vs. hs ! (i + j) \<noteq> k \<Longrightarrow>
     map_of rd' k = map_of rd k"
proof (induction vs arbitrary: i rd)
  case Nil
  then show ?case by simp
next
  case (Cons v vs)
  from Cons.prems(1) obtain x where
    rec: "add_dimensions hs (Suc i) vs (dict_set rd (hs ! i) (CObj x)) = Inr rd'"
    by (auto simp: py_index_def split: sum.splits if_splits)
  from Cons.prems(2) have k: "hs ! i \<noteq> k" by force
  have "\<forall>j<length vs. hs ! (Suc i + j) \<noteq> k"
  proof (intro allI impI)
    fix j assume "j < length vs"
    with Cons.prems(2) have "hs ! (i + Suc j) \<noteq> k" by force
    then show "hs ! (Suc i + j) \<noteq> k" by simp
  qed
  from Cons.IH [OF rec this] k show ?case
    by (simp add: map_of_dict_set)
qed

lemma add_metrics_untouched:
  "add_metrics fl hs i vs rd = Inr rd' \<Longrightarrow> \<forall>j<length vs. hs ! (i + j) \<noteq> k \<Longrightarrow>
     map_of rd' k = map_of rd k"
proof (induction vs arbitrary: i rd)
  case Nil
  then show ?case by simp
next
  case (Cons v vs)
  from Cons.prems(1) obtain x where
    rec: "add_metrics fl hs (Suc i) vs (dict_set rd (hs ! i) (CFloat x)) = Inr rd'"
    by (auto simp: py_index_def split: sum.splits if_splits)
  from Cons.prems(2) have k: "hs ! i \<noteq> k" by force
  have "\<forall>j<length vs. hs ! (Suc i + j) \<noteq> k"
  proof (intro allI impI)
    fix j assume "j < length vs"
    with Cons.prems(2) have "hs ! (i + Suc j) \<noteq> k" by force
    then show "hs ! (Suc i + j) \<noteq> k" by simp
  qed
  from Cons.IH [OF rec this] k show ?case
    by (simp add: map_of_dict_set)
qed

lemma add_dimensions_last_wins:
  "add_dimensions hs i vs rd = Inr rd' \<Longrightarrow>
     \<exists>vals. item_values vs = Some vals \<and>
       (\<forall>j<length vals. (\<forall>j'<length vals. j < j' \<longrightarrow> hs ! (i + j') \<noteq> hs ! (i + j)) \<longrightarrow>
          map_of rd' (hs ! (i + j)) = Some (CObj (vals ! j)))"
proof (induction vs arbitrary: i rd)
  case Nil
  then show ?case by simp
next
  case (Cons v vs)
  from Cons.prems(1) obtain x where
    x: "py_getitem v ''value'' = Inr x" and
    rec: "add_dimensions hs (Suc i) vs (dict_set rd (hs ! i) (CObj x)) = Inr rd'"
    by (auto simp: py_index_def split: sum.splits if_splits)
  from Cons.IH [OF rec] obtain vals where
    vals: "item_values vs = Some vals" and
    ih: "\<forall>j<length vals. (\<forall>j'<length vals. j < j' \<longrightarrow> hs ! (Suc i + j') \<noteq> hs ! (Suc i + j)) \<longrightarrow>
           map_of rd' (hs ! (Suc i + j)) = Some (CObj (vals ! j))"
    by blast
  from item_values_length [OF vals] have n: "length vals = length vs" .
  have "\<forall>j<length (x # vals).
          (\<forall>j'<length (x # vals). j < j' \<longrightarrow> hs ! (i + j') \<noteq> hs ! (i + j)) \<longrightarrow>
          map_of rd' (hs ! (i + j)) = Some (CObj ((x # vals) ! j))"
  proof (intro allI impI)
    fix j
    assume j: "j < length (x # vals)"
      and later: "\<forall>j'<length (x # vals). j < j' \<longrightarrow> hs ! (i + j') \<noteq> hs ! (i + j)"
    show "map_of rd' (hs ! (i + j)) = Some (CObj ((x # vals) ! j))"
    proof (cases j)
      case 0
      have "\<forall>j'<length vs. hs ! (Suc i + j') \<noteq> hs ! i"
      proof (intro allI impI)
        fix j' assume "j' < length vs"
        with later 0 n have "hs ! (i + Suc j') \<noteq> hs ! (i + 0)" by force
        then show "hs ! (Suc i + j') \<noteq> hs ! i" by simp
      qed
      from add_dimensions_untouched [OF rec this] 0 show ?thesis
        by (simp add: map_of_dict_set)
    next
      case (Suc j0)
      with j have j0: "j0 < length vals" by simp
      have "\<forall>j'<length vals. j0 < j' \<longrightarrow> hs ! (Suc i + j') \<noteq> hs ! (Suc i + j0)"
      proof (intro allI impI)
        fix j' assume "j' < length vals" "j0 < j'"
        with later Suc have "hs ! (i + Suc j') \<noteq> hs ! (i + j)" by force
        with Suc show "hs ! (Suc i + j') \<noteq> hs ! (Suc i + j0)" by simp
      qed
      with ih j0 Suc show ?thesis by simp
    qed
  qed
  with x vals show ?case by simp
qed

lemma add_metrics_last_wins:
  "add_metrics fl hs i vs rd = Inr rd' \<Longrightarrow>
     \<exists>vals. item_values vs = Some vals \<and>
       (\<forall>j<length vals. \<exists>x. fl (vals ! j) = Inr x \<and>
          ((\<forall>j'<length vals. j < j' \<longrightarrow> hs ! (i + j') \<noteq> hs ! (i + j)) \<longrightarrow>
             map_of rd' (hs ! (i + j)) = Some (CFloat x)))"
proof (induction vs arbitrary: i rd)
  case Nil
  then show ?case by simp
next
  case (Cons v vs)
  from Cons.prems(1) obtain a x where
    a: "py_getitem v ''value'' = Inr a" and
    x: "fl a = Inr x" and
    rec: "add_metrics fl hs (Suc i) vs (dict_set rd (hs ! i) (CFloat x)) = Inr rd'"
    by (auto simp: py_index_def split: sum.splits if_splits)
  from Cons.IH [OF rec] obtain vals where
    vals: "item_values vs = Some vals" and
    ih: "\<forall>j<length vals. \<exists>x. fl (vals ! j) = Inr x \<and>
           ((\<forall>j'<length vals. j < j' \<longrightarrow> hs ! (Suc i + j') \<noteq> hs ! (Suc i + j)) \<longrightarrow>
              map_of rd' (hs ! (Suc i + j)) = Some (CFloat x))"
    by blast
  from item_values_length [OF vals] have n: "length vals = length vs" .
  have "\<forall>j<length (a # vals). \<exists>x. fl ((a # vals) ! j) = Inr x \<and>
          ((\<forall>j'<length (a # vals). j < j' \<longrightarrow> hs ! (i + j') \<noteq> hs ! (i + j)) \<longrightarrow>
             map_of rd' (hs ! (i + j)) = Some (CFloat x))"
  proof (intro allI impI)
    fix j
    assume j: "j < length (a # vals)"
    show "\<exists>x. fl ((a # vals) ! j) = Inr x \<and>
          ((\<forall>j'<length (a # vals). j < j' \<longrightarrow> hs ! (i + j') \<noteq> hs ! (i + j)) \<longrightarrow>
             map_of rd' (hs ! (i + j)) = Some (CFloat x))"
    proof (cases j)
      case 0
      have "(\<forall>j'<length (a # vals). j < j' \<longrightarrow> hs ! (i + j') \<noteq> hs ! (i + j)) \<longrightarrow>
             map_of rd' (hs ! (i + j)) = Some (CFloat x)"
      proof
        assume later: "\<forall>j'<length (a # vals). j < j' \<longrightarrow> hs ! (i + j') \<noteq> hs ! (i + j)"
        have "\<forall>j'<length vs. hs ! (Suc i + j') \<noteq> hs ! i"
        proof (intro allI impI)
          fix j' assume "j' < length vs"
          with later 0 n have "hs ! (i + Suc j') \<noteq> hs ! (i + 0)" by force
          then show "hs ! (Suc i + j') \<noteq> hs ! i" by simp
        qed
        from add_metrics_untouched [OF rec this] 0
        show "map_of rd' (hs ! (i + j)) = Some (CFloat x)"
          by (simp add: map_of_dict_set)
      qed
      with x 0 show ?thesis by simp
    next
      case (Suc j0)
      with j have j0: "j0 < length vals" by simp
      with ih obtain y where
        y: "fl (vals ! j0) = Inr y" and
        b: "(\<forall>j'<length vals. j0 < j' \<longrightarrow> hs ! (Suc i + j') \<noteq> hs ! (Suc i + j0)) \<longrightarrow>
              map_of rd' (hs ! (Suc i + j0)) = Some (CFloat y)"
        by blast
      have "(\<forall>j'<length (a # vals). j < j' \<longrightarrow> hs ! (i + j') \<noteq> hs ! (i + j)) \<longrightarrow>
             map_of rd' (hs ! (i + j)) = Some (CFloat y)"
      proof
        assume later: "\<forall>j'<length (a # vals). j < j' \<longrightarrow> hs ! (i + j') \<noteq> hs ! (i + j)"
        have "\<forall>j'<length vals. j0 < j' \<longrightarrow> hs ! (Suc i + j') \<noteq> hs ! (Suc i + j0)"
        proof (intro allI impI)
          fix j' assume "j' < length vals" "j0 < j'"
          with later Suc have "hs ! (i + Suc j') \<noteq> hs ! (i + j)" by force
          with Suc show "hs ! (Suc i + j') \<noteq> hs ! (Suc i + j0)" by simp
        qed
        with b Suc show "map_of rd' (hs ! (i + j)) = Some (CFloat y)" by simp
      qed
      with y Suc show ?thesis by simp
    qed
  qed
  with a vals show ?case by simp
qed

lemma flatten_row_last_wins:
  assumes "flatten_row fl dh mh row = Inr rd"
  shows "\<exists>dvals mvals.
           row_values row ''dimensionValues'' = Some dvals \<and>
           row_values row ''metricValues'' = Some mvals \<and>
           (\<forall>i<length dvals.
              (\<forall>i'<length dvals. i < i' \<longrightarrow> dh ! i' \<noteq> dh ! i) \<longrightarrow>
              (\<forall>j<length mvals. mh ! j \<noteq> dh ! i) \<longrightarrow>
              map_of rd (dh ! i) = Some (CObj (dvals ! i))) \<and>
           (\<forall>j<length mvals. \<exists>x. fl (mvals ! j) = Inr x \<and>
              ((\<forall>j'<length mvals. j < j' \<longrightarrow> mh ! j' \<noteq> mh ! j) \<longrightarrow>
                 map_of rd (mh ! j) = Some (CFloat x)))"
proof -
  from assms obtain dv dvs rd1 mv mvs where
    dv: "py_get row ''dimensionValues'' (JArr []) = Inr dv" "py_iter dv = Inr dvs" and
    a1: "add_dimensions dh 0 dvs [] = Inr rd1" and
    mv: "py_get row ''metricValues'' (JArr []) = Inr mv" "py_iter mv = Inr mvs" and
    a2: "add_metrics fl mh 0 mvs rd1 = Inr rd"
    by (auto simp: flatten_row_def split: sum.splits)
  from add_dimensions_last_wins [OF a1] obtain dvals where
    dvals: "item_values dvs = Some dvals" and
    l1: "\<forall>i<length dvals. (\<forall>i'<length dvals. i < i' \<longrightarrow> dh ! i' \<noteq> dh ! i) \<longrightarrow>
           map_of rd1 (dh ! i) = Some (CObj (dvals ! i))"
    by auto
  from add_metrics_last_wins [OF a2] obtain mvals where
    mvals: "item_values mvs = Some mvals" and
    l2: "\<forall>j<length mvals. \<exists>x. fl (mvals ! j) = Inr x \<and>
           ((\<forall>j'<length mvals. j < j' \<longrightarrow> mh ! j' \<noteq> mh ! j) \<longrightarrow>
              map_of rd (mh ! j) = Some (CFloat x))"
    by auto
  from item_values_length [OF mvals] have n: "length mvals = length mvs" .
  have "\<forall>i<length dvals.
              (\<forall>i'<length dvals. i < i' \<longrightarrow> dh ! i' \<noteq> dh ! i) \<longrightarrow>
              (\<forall>j<length mvals. mh ! j \<noteq> dh ! i) \<longrightarrow>
              map_of rd (dh ! i) = Some (CObj (dvals ! i))"
  proof (intro allI impI)
    fix i
    assume i: "i < length dvals"
      and c1: "\<forall>i'<length dvals. i < i' \<longrightarrow> dh ! i' \<noteq> dh ! i"
      and c2: "\<forall>j<length mvals. mh ! j \<noteq> dh ! i"
    from c2 n have "\<forall>j<length mvs. mh ! (0 + j) \<noteq> dh ! i" by simp
    from add_metrics_untouched [OF a2 this] l1 i c1
    show "map_of rd (dh ! i) = Some (CObj (dvals ! i))" by simp
  qed
  with dv mv dvals mvals l2 show ?thesis
    by (simp add: row_values_def row_items_def)
qed

lemma frame_rows_cell:
  assumes look: "\<forall>l. l \<noteq> JStr ''date'' \<longrightarrow> l \<in> set (concat (map (map fst) recs)) \<longrightarrow>
              map_of (cols t) l =
                Some (map (\<lambda>r. case map_of r l of None \<Rightarrow> CNaN | Some v \<Rightarrow> v) recs)"
    and len: "index_len t = length recs"
    and r: "r < length recs"
    and cell: "map_of (recs ! r) l = Some c"
    and nd: "l \<noteq> JStr ''date''"
  shows "map_of (frame_rows t ! r) l = Some c"
proof -
  from cell have "l \<in> fst ` set (recs ! r)"
    by (metis map_of_eq_None_iff option.distinct(1))
  moreover have "recs ! r \<in> set recs" using r by simp
  ultimately have "l \<in> set (concat (map (map fst) recs))" by auto
  with look nd have
    "map_of (cols t) l = Some (map (\<lambda>r. case map_of r l of None \<Rightarrow> CNaN | Some v \<Rightarrow> v) recs)"
    by simp
  with cell r len show ?thesis
    by (simp add: map_of_frame_rows)
qed


text \<open>
  C4, as amended. Take a response with a list \<open>rows\<close> whose header names are strings and
  whose rows fit the headers and hold strings as dimension and metric values; and let
  \<open>float\<close> raise nothing but \<open>ValueError\<close> on a string, as Python's does. Then:

  \<^item> the record that the flattening builds for row \<open>r\<close> binds the name of metric header \<open>j\<close>
    to the float that \<open>float\<close> gives for the metric value \<open>j\<close> of the row, unless a later
    metric value of the row has a header of the same name; and it binds the name of
    dimension header \<open>i\<close> to the dimension value \<open>i\<close> of the row, the string as it came,
    unless a later dimension value or a metric value of the row has a header of the same
    name, which then overwrites it;

  \<^item> in the table \<^verbatim>\<open>get_data\<close> returns, the cell of row \<open>r\<close> in the column of that name
    holds the same, for every name but \<open>date\<close>, the column that the date conversion
    replaces;

  \<^item> the flattening succeeds when every metric value converts;

  \<^item> when some metric value does not convert, \<^verbatim>\<open>get_data\<close> raises \<open>ValueError\<close>, the
    exception of the built-in \<open>float\<close> (the source has no \<open>TypeConversionError\<close>), and
    no other error.
\<close>

theorem values_bound_unless_overwritten:
  fixes env :: "('f, 'd, 'w) env"
    and recs :: "('f json \<times> ('f, 'd) cell) list list"
  assumes req: "make_request env (ga_request self metrics dimensions start_date end_date) w
                  = (Inr response, w')"
    and rows: "map_of response ''rows'' = Some (JArr rs)"
    and dh: "response_headers response ''dimensionHeaders'' = Inr dh"
    and mh: "response_headers response ''metricHeaders'' = Inr mh"
    and str: "list_all is_JStr (dh @ mh)"
    and shape: "\<forall>row\<in>set rs. row_fits dh mh row \<and>
                  (\<exists>dvals mvals.
                     row_values row ''dimensionValues'' = Some dvals \<and>
                     row_values row ''metricValues'' = Some mvals \<and>
                     list_all is_JStr dvals \<and> list_all is_JStr mvals)"
    and fl: "\<forall>v e. is_JStr v \<longrightarrow> py_float env v = Inl e \<longrightarrow> e = ValueError"
  shows "(flatten_rows (py_float env) dh mh rs = Inr recs \<longrightarrow>
            length recs = length rs \<and>
            (\<forall>r<length rs. \<exists>dvals mvals.
               row_values (rs ! r) ''dimensionValues'' = Some dvals \<and>
               row_values (rs ! r) ''metricValues'' = Some mvals \<and>
               (\<forall>i<length dvals.
                  (\<forall>i'<length dvals. i < i' \<longrightarrow> dh ! i' \<noteq> dh ! i) \<longrightarrow>
                  (\<forall>j<length mvals. mh ! j \<noteq> dh ! i) \<longrightarrow>
                  map_of (recs ! r) (dh ! i) = Some (CObj (dvals ! i))) \<and>
               (\<forall>j<length mvals. \<exists>x. py_float env (mvals ! j) = Inr x \<and>
                  ((\<forall>j'<length mvals. j < j' \<longrightarrow> mh ! j' \<noteq> mh ! j) \<longrightarrow>
                     map_of (recs ! r) (mh ! j) = Some (CFloat x))))) \<and>
         (get_data env self metrics dimensions start_date end_date w = (Inr t, w') \<longrightarrow>
            index_len t = length rs \<and>
            (\<forall>r<length rs. \<exists>dvals mvals.
               row_values (rs ! r) ''dimensionValues'' = Some dvals \<and>
               row_values (rs ! r) ''metricValues'' = Some mvals \<and>
               (\<forall>i<length dvals.
                  (\<forall>i'<length dvals. i < i' \<longrightarrow> dh ! i' \<noteq> dh ! i) \<longrightarrow>
                  (\<forall>j<length mvals. mh ! j \<noteq> dh ! i) \<longrightarrow>
                  dh ! i \<noteq> JStr ''date'' \<longrightarrow>
                  map_of (frame_rows t ! r) (dh ! i) = Some (CObj (dvals ! i))) \<and>
               (\<forall>j<length mvals. \<exists>x. py_float env (mvals ! j) = Inr x \<and>
                  ((\<forall>j'<length mvals. j < j' \<longrightarrow> mh ! j' \<noteq> mh ! j) \<longrightarrow>
                   mh ! j \<noteq> JStr ''date'' \<longrightarrow>
                     map_of (frame_rows t ! r) (mh ! j) = Some (CFloat x))))) \<and>
         ((\<forall>row\<in>set rs. \<forall>mvals. row_values row ''metricValues'' = Some mvals \<longrightarrow>
               (\<forall>v\<in>set mvals. \<exists>x. py_float env v = Inr x)) \<longrightarrow>
            (\<exists>recs' :: ('f json \<times> ('f, 'd) cell) list list.
               flatten_rows (py_float env) dh mh rs = Inr recs')) \<and>
         ((\<exists>row\<in>set rs. \<exists>mvals. row_values row ''metricValues'' = Some mvals \<and>
               (\<exists>v\<in>set mvals. py_float env v = Inl ValueError)) \<longrightarrow>
            get_data env self metrics dimensions start_date end_date w = (Inl ValueError, w'))"
proof -
  from str have hs: "list_all hashable (dh @ mh)"
    by (rule list_all_is_JStr_hashable)
  have shape': "\<forall>row\<in>set rs. row_fits dh mh row \<and> (\<exists>dvals mvals.
           row_values row ''dimensionValues'' = Some dvals \<and>
           row_values row ''metricValues'' = Some mvals \<and>
           (\<forall>v\<in>set mvals. \<forall>e. py_float env v = Inl e \<longrightarrow> e = ValueError))"
  proof
    fix row assume "row \<in> set rs"
    with shape obtain dvals mvals where
      f: "row_fits dh mh row" and
      v: "row_values row ''dimensionValues'' = Some dvals"
         "row_values row ''metricValues'' = Some mvals" and
      s: "list_all is_JStr mvals"
      by blast
    from s fl have "\<forall>v\<in>set mvals. \<forall>e. py_float env v = Inl e \<longrightarrow> e = ValueError"
      by (auto simp: list_all_iff)
    with f v show "row_fits dh mh row \<and> (\<exists>dvals mvals.
           row_values row ''dimensionValues'' = Some dvals \<and>
           row_values row ''metricValues'' = Some mvals \<and>
           (\<forall>v\<in>set mvals. \<forall>e. py_float env v = Inl e \<longrightarrow> e = ValueError))"
      by blast
  qed
  have fits:
    "((\<forall>row\<in>set rs. \<forall>mvals. row_values row ''metricValues'' = Some mvals \<longrightarrow>
              (\<forall>v\<in>set mvals. \<exists>x. py_float env v = Inr x)) \<longrightarrow>
            (\<exists>recs :: ('f json \<times> ('f, 'd) cell) list list.
               flatten_rows (py_float env) dh mh rs = Inr recs)) \<and>
     ((\<exists>row\<in>set rs. \<exists>mvals. row_values row ''metricValues'' = Some mvals \<and>
              (\<exists>v\<in>set mvals. py_float env v = Inl ValueError)) \<longrightarrow>
            flatten_rows (py_float env) dh mh rs
              = (Inl ValueError :: py_error + ('f json \<times> ('f, 'd) cell) list list))"
    using hs shape' by (rule flatten_rows_fits)
  have records: "length rcs = length rs \<and>
            (\<forall>r<length rs. \<exists>dvals mvals.
               row_values (rs ! r) ''dimensionValues'' = Some dvals \<and>
               row_values (rs ! r) ''metricValues'' = Some mvals \<and>
               (\<forall>i<length dvals.
                  (\<forall>i'<length dvals. i < i' \<longrightarrow> dh ! i' \<noteq> dh ! i) \<longrightarrow>
                  (\<forall>j<length mvals. mh ! j \<noteq> dh ! i) \<longrightarrow>
                  map_of (rcs ! r) (dh ! i) = Some (CObj (dvals ! i))) \<and>
               (\<forall>j<length mvals. \<exists>x. py_float env (mvals ! j) = Inr x \<and>
                  ((\<forall>j'<length mvals. j < j' \<longrightarrow> mh ! j' \<noteq> mh ! j) \<longrightarrow>
                     map_of (rcs ! r) (mh ! j) = Some (CFloat x))))"
    if ok: "flatten_rows (py_float env) dh mh rs = Inr rcs"
    for rcs :: "('f json \<times> ('f, 'd) cell) list list"
  proof (intro conjI allI impI)
    show "length rcs = length rs" using flatten_rows_nth [OF ok] by simp
  next
    fix r assume "r < length rs"
    with flatten_rows_nth [OF ok]
    have "flatten_row (py_float env) dh mh (rs ! r) = Inr (rcs ! r)" by simp
    from flatten_row_last_wins [OF this]
    show "\<exists>dvals mvals.
               row_values (rs ! r) ''dimensionValues'' = Some dvals \<and>
               row_values (rs ! r) ''metricValues'' = Some mvals \<and>
               (\<forall>i<length dvals.
                  (\<forall>i'<length dvals. i < i' \<longrightarrow> dh ! i' \<noteq> dh ! i) \<longrightarrow>
                  (\<forall>j<length mvals. mh ! j \<noteq> dh ! i) \<longrightarrow>
                  map_of (rcs ! r) (dh ! i) = Some (CObj (dvals ! i))) \<and>
               (\<forall>j<length mvals. \<exists>x. py_float env (mvals ! j) = Inr x \<and>
                  ((\<forall>j'<length mvals. j < j' \<longrightarrow> mh ! j' \<noteq> mh ! j) \<longrightarrow>
                     map_of (rcs ! r) (mh ! j) = Some (CFloat x)))" .
  qed
  have table: "index_len t = length rs \<and>
            (\<forall>r<length rs. \<exists>dvals mvals.
               row_values (rs ! r) ''dimensionValues'' = Some dvals \<and>
               row_values (rs ! r) ''metricValues'' = Some mvals \<and>
               (\<forall>i<length dvals.
                  (\<forall>i'<length dvals. i < i' \<longrightarrow> dh ! i' \<noteq> dh ! i) \<longrightarrow>
                  (\<forall>j<length mvals. mh ! j \<noteq> dh ! i) \<longrightarrow>
                  dh ! i \<noteq> JStr ''date'' \<longrightarrow>
                  map_of (frame_rows t ! r) (dh ! i) = Some (CObj (dvals ! i))) \<and>
               (\<forall>j<length mvals. \<exists>x. py_float env (mvals ! j) = Inr x \<and>
                  ((\<forall>j'<length mvals. j < j' \<longrightarrow> mh ! j' \<noteq> mh ! j) \<longrightarrow>
                   mh ! j \<noteq> JStr ''date'' \<longrightarrow>
                     map_of (frame_rows t ! r) (mh ! j) = Some (CFloat x))))"
    if res: "get_data env self metrics dimensions start_date end_date w = (Inr t, w')"
  proof -
    from req res have "ga_table env response = Inr t"
      by (simp add: get_data_def)
    from ga_table_Inr [OF this rows] dh mh
    obtain rcs :: "('f json \<times> ('f, 'd) cell) list list" where
      ok: "flatten_rows (py_float env) dh mh rs = Inr rcs" and
      len: "index_len t = length rcs" and
      look: "\<forall>l. l \<noteq> JStr ''date'' \<longrightarrow> l \<in> set (concat (map (map fst) rcs)) \<longrightarrow>
                map_of (cols t) l =
                  Some (map (\<lambda>r. case map_of r l of None \<Rightarrow> CNaN | Some v \<Rightarrow> v) rcs)"
      by auto
    note rec = records [OF ok]
    from rec have n: "length rcs = length rs" by simp
    show ?thesis
    proof (intro conjI allI impI)
      show "index_len t = length rs" using len n by simp
    next
      fix r assume r: "r < length rs"
      with rec obtain dvals mvals where
        v: "row_values (rs ! r) ''dimensionValues'' = Some dvals"
           "row_values (rs ! r) ''metricValues'' = Some mvals" and
        d: "\<forall>i<length dvals.
                  (\<forall>i'<length dvals. i < i' \<longrightarrow> dh ! i' \<noteq> dh ! i) \<longrightarrow>
                  (\<forall>j<length mvals. mh ! j \<noteq> dh ! i) \<longrightarrow>
                  map_of (rcs ! r) (dh ! i) = Some (CObj (dvals ! i))" and
        m: "\<forall>j<length mvals. \<exists>x. py_float env (mvals ! j) = Inr x \<and>
                  ((\<forall>j'<length mvals. j < j' \<longrightarrow> mh ! j' \<noteq> mh ! j) \<longrightarrow>
                     map_of (rcs ! r) (mh ! j) = Some (CFloat x))"
        by blast
      from r n have r': "r < length rcs" by simp
      have "\<forall>i<length dvals.
                  (\<forall>i'<length dvals. i < i' \<longrightarrow> dh ! i' \<noteq> dh ! i) \<longrightarrow>
                  (\<forall>j<length mvals. mh ! j \<noteq> dh ! i) \<longrightarrow>
                  dh ! i \<noteq> JStr ''date'' \<longrightarrow>
                  map_of (frame_rows t ! r) (dh ! i) = Some (CObj (dvals ! i))"
        using d frame_rows_cell [OF look len r'] by blast
      moreover have "\<forall>j<length mvals. \<exists>x. py_float env (mvals ! j) = Inr x \<and>
                  ((\<forall>j'<length mvals. j < j' \<longrightarrow> mh ! j' \<noteq> mh ! j) \<longrightarrow>
                   mh ! j \<noteq> JStr ''date'' \<longrightarrow>
                     map_of (frame_rows t ! r) (mh ! j) = Some (CFloat x))"
      proof (intro allI impI)
        fix j assume "j < length mvals"
        with m obtain x where x: "py_float env (mvals ! j) = Inr x" and
          b: "(\<forall>j'<length mvals. j < j' \<longrightarrow> mh ! j' \<noteq> mh ! j) \<longrightarrow>
                     map_of (rcs ! r) (mh ! j) = Some (CFloat x)"
          by blast
        from b frame_rows_cell [OF look len r']
        have "(\<forall>j'<length mvals. j < j' \<longrightarrow> mh ! j' \<noteq> mh ! j) \<longrightarrow>
                   mh ! j \<noteq> JStr ''date'' \<longrightarrow>
                     map_of (frame_rows t ! r) (mh ! j) = Some (CFloat x)"
          by blast
        with x show "\<exists>x. py_float env (mvals ! j) = Inr x \<and>
                  ((\<forall>j'<length mvals. j < j' \<longrightarrow> mh ! j' \<noteq> mh ! j) \<longrightarrow>
                   mh ! j \<noteq> JStr ''date'' \<longrightarrow>
                     map_of (frame_rows t ! r) (mh ! j) = Some (CFloat x))"
          by blast
      qed
      ultimately show "\<exists>dvals mvals.
               row_values (rs ! r) ''dimensionValues'' = Some dvals \<and>
               row_values (rs ! r) ''metricValues'' = Some mvals \<and>
               (\<forall>i<length dvals.
                  (\<forall>i'<length dvals. i < i' \<longrightarrow> dh ! i' \<noteq> dh ! i) \<longrightarrow>
                  (\<forall>j<length mvals. mh ! j \<noteq> dh ! i) \<longrightarrow>
                  dh ! i \<noteq> JStr ''date'' \<longrightarrow>
                  map_of (frame_rows t ! r) (dh ! i) = Some (CObj (dvals ! i))) \<and>
               (\<forall>j<length mvals. \<exists>x. py_float env (mvals ! j) = Inr x \<and>
                  ((\<forall>j'<length mvals. j < j' \<longrightarrow> mh ! j' \<noteq> mh ! j) \<longrightarrow>
                   mh ! j \<noteq> JStr ''date'' \<longrightarrow>
                     map_of (frame_rows t ! r) (mh ! j) = Some (CFloat x)))"
        using v by blast
    qed
  qed
  have err: "get_data env self metrics dimensions start_date end_date w = (Inl ValueError, w')"
    if bad: "\<exists>row\<in>set rs. \<exists>mvals. row_values row ''metricValues'' = Some mvals \<and>
               (\<exists>v\<in>set mvals. py_float env v = Inl ValueError)"
  proof -
    from bad fits have fe: "flatten_rows (py_float env) dh mh rs
              = (Inl ValueError :: py_error + ('f json \<times> ('f, 'd) cell) list list)"
      by blast
    have it: "py_iter (JArr rs) = Inr rs" by simp
    have "ga_table env response = Inl ValueError"
      by (rule ga_table_flatten_error [OF rows dh mh it fe])
    with req show ?thesis
      by (simp add: get_data_def)
  qed
  from records [of recs] table err fits show ?thesis by blast
qed


theorem values_bound_unless_overwritten_witness:
  "get_data (mock_env nonnumeric_response) (GoogleAnalyticsConnector ''token'' ''1234'')
     [''sessions''] (Some [''source'']) None None 0 = (Inl ValueError, 1) \<and>
   get_data (mock_env traffic_sources_response) (GoogleAnalyticsConnector ''token'' ''1234'')
     [''sessions'', ''users''] (Some [''source'', ''medium'']) None None 0
     = (Inr (traffic_sources_table ''10.0'' ''8.0''), 1) \<and>
   map_of (frame_rows (traffic_sources_table ''10.0'' ''8.0'' :: (string, string) dataframe) ! 0)
     (JStr ''medium'') = Some (CObj (JStr ''organic'')) \<and>
   map_of (frame_rows (traffic_sources_table ''10.0'' ''8.0'' :: (string, string) dataframe) ! 0)
     (JStr ''users'') = Some (CFloat ''8.0'')"
proof -
  let ?self = "GoogleAnalyticsConnector ''token'' ''1234''"
  let ?env = "mock_env traffic_sources_response"
  let ?rs = "[JObj [(''dimensionValues'', JArr [JObj [(''value'', JStr ''google'')],
                                                JObj [(''value'', JStr ''organic'')]]),
                    (''metricValues'', JArr [JObj [(''value'', JStr ''10'')],
                                             JObj [(''value'', JStr ''8'')]])]] :: string json list"
  let ?dh = "[JStr ''source'', JStr ''medium''] :: string json list"
  let ?mh = "[JStr ''sessions'', JStr ''users''] :: string json list"
  let ?t = "traffic_sources_table ''10.0'' ''8.0'' :: (string, string) dataframe"
  have e: "get_data (mock_env nonnumeric_response) ?self
     [''sessions''] (Some [''source'']) None None 0 = (Inl ValueError, 1)"
    using values_bound_unless_overwritten
      [of "mock_env nonnumeric_response" ?self
          "[''sessions'']" "Some [''source'']" None None 0 nonnumeric_response 1
          "[JObj [(''dimensionValues'', JArr [JObj [(''value'', JStr ''google'')]]),
                  (''metricValues'', JArr [JObj [(''value'', JStr ''abc'')]])]]"
          "[JStr ''source'']" "[JStr ''sessions'']" "[]" DataFrame_empty]
      mock_float_str
    by (simp add: mock_env_request nonnumeric_response_def response_headers_def
        row_values_def row_items_def row_fits_def) (simp add: mock_env_def)
  have req: "make_request ?env
        (ga_request ?self [''sessions'', ''users''] (Some [''source'', ''medium'']) None None) 0
      = (Inr traffic_sources_response, 1)"
    by (simp add: mock_env_request)
  have rows: "map_of (traffic_sources_response :: (string \<times> string json) list) ''rows''
                = Some (JArr ?rs)"
    by (simp add: traffic_sources_response_def)
  have dh: "response_headers (traffic_sources_response :: (string \<times> string json) list)
              ''dimensionHeaders'' = Inr ?dh"
    by (simp add: traffic_sources_response_def response_headers_def)
  have mh: "response_headers (traffic_sources_response :: (string \<times> string json) list)
              ''metricHeaders'' = Inr ?mh"
    by (simp add: traffic_sources_response_def response_headers_def)
  have str: "list_all is_JStr (?dh @ ?mh)" by simp
  have dv: "row_values (?rs ! 0) ''dimensionValues'' = Some [JStr ''google'', JStr ''organic'']"
    and mv: "row_values (?rs ! 0) ''metricValues'' = Some [JStr ''10'', JStr ''8'']"
    by (simp_all add: row_values_def row_items_def)
  have shape: "\<forall>row\<in>set ?rs. row_fits ?dh ?mh row \<and>
                  (\<exists>dvals mvals.
                     row_values row ''dimensionValues'' = Some dvals \<and>
                     row_values row ''metricValues'' = Some mvals \<and>
                     list_all is_JStr dvals \<and> list_all is_JStr mvals)"
    by (simp add: row_fits_def row_values_def row_items_def)
  have py: "\<forall>v e. is_JStr v \<longrightarrow> py_float ?env v = Inl e \<longrightarrow> e = ValueError"
    using mock_float_str by (simp add: mock_env_def)
  have res: "get_data ?env ?self [''sessions'', ''users''] (Some [''source'', ''medium''])
               None None 0 = (Inr ?t, 1)"
    by (simp add: get_data_def mock_env_def ga_table_traffic_sources validate_data_def)
  have r0: "0 < length ?rs" by simp
  note bound = values_bound_unless_overwritten [OF req rows dh mh str shape py, of "[]" ?t]
  from bound [THEN conjunct2, THEN conjunct1, THEN mp, OF res, THEN conjunct2,
      THEN spec [of _ 0], THEN mp, OF r0]
  obtain dvals mvals where
    v: "row_values (?rs ! 0) ''dimensionValues'' = Some dvals"
       "row_values (?rs ! 0) ''metricValues'' = Some mvals" and
    d: "\<forall>i<length dvals.
          (\<forall>i'<length dvals. i < i' \<longrightarrow> ?dh ! i' \<noteq> ?dh ! i) \<longrightarrow>
          (\<forall>j<length mvals. ?mh ! j \<noteq> ?dh ! i) \<longrightarrow>
          ?dh ! i \<noteq> JStr ''date'' \<longrightarrow>
          map_of (frame_rows ?t ! 0) (?dh ! i) = Some (CObj (dvals ! i))" and
    m: "\<forall>j<length mvals. \<exists>x. py_float ?env (mvals ! j) = Inr x \<and>
          ((\<forall>j'<length mvals. j < j' \<longrightarrow> ?mh ! j' \<noteq> ?mh ! j) \<longrightarrow>
           ?mh ! j \<noteq> JStr ''date'' \<longrightarrow>
           map_of (frame_rows ?t ! 0) (?mh ! j) = Some (CFloat x))"
    by blast
  from v dv mv have vals: "dvals = [JStr ''google'', JStr ''organic'']"
    "mvals = [JStr ''10'', JStr ''8'']" by simp_all
  from d [THEN spec, of 1] vals
  have c1: "map_of (frame_rows ?t ! 0) (JStr ''medium'') = Some (CObj (JStr ''organic''))"
    by (auto simp: less_Suc_eq)
  from m [THEN spec, of 1] vals
  have c2: "map_of (frame_rows ?t ! 0) (JStr ''users'') = Some (CFloat ''8.0'')"
    by (auto simp: less_Suc_eq mock_env_def)
  from e res c1 c2 show ?thesis by simp
qed

text \<open>
  The claim C4 as it was stated fails in two places. With a dimension header and a metric
  header of the same name \<open>x\<close>, the row (google; "10") gives a table whose only column
  \<open>x\<close> holds the float of \<open>"10"\<close>: the dimension value is bound to no column. And in a
  row whose dimension value has no header, a metric value that is not a number does not
  decide the error: the loop over the dimension values raises \<open>IndexError\<close> before the
  metric value is read.
\<close>

lemma ga_table_same_name:
  "ga_table (mock_env response') same_name_response = Inr same_name_table"
  by (simp add: ga_table_def same_name_response_def response_headers_def flatten_row_def
      py_index_def DataFrame_records_def first_occ_def frame_columns_def mock_env_def
      validate_data_def same_name_table_def)

lemma ga_table_unheaded_nonnumeric:
  "ga_table (mock_env response') unheaded_nonnumeric_response = Inl IndexError"
  by (simp add: ga_table_def unheaded_nonnumeric_response_def response_headers_def
      flatten_row_def py_index_def mock_env_def)

theorem value_overwritten_and_IndexError_first:
  "get_data (mock_env same_name_response) (GoogleAnalyticsConnector ''token'' ''1234'')
     [''x''] (Some [''x'']) None None 0 = (Inr same_name_table, 1) \<and>
   frame_rows same_name_table = [[(JStr ''x'', CFloat ''10.0'')]] \<and>
   get_data (mock_env unheaded_nonnumeric_response) (GoogleAnalyticsConnector ''token'' ''1234'')
     [''sessions''] (Some [''source'']) None None 0 = (Inl IndexError, 1) \<and>
   mock_float (JStr ''abc'') = Inl ValueError"
  by (simp add: get_data_def mock_env_request ga_table_same_name ga_table_unheaded_nonnumeric
      same_name_table_def frame_rows_def)


subsection \<open>The Similarweb website overview\<close>

text \<open>
  What \<^verbatim>\<open>get_website_overview\<close> does with a response: without a key \<open>visits\<close> the result
  is the empty table; with a list of dicts under \<open>visits\<close>, a table that is returned has
  one row per dict, the domain in every row of its column \<open>domain\<close>, timestamps in its
  column \<open>date\<close>, and has passed the validation. With an empty list under \<open>visits\<close> no
  table is returned: the frame has no column \<open>date\<close> to convert.
\<close>

lemma sw_table_without_visits:
  "map_of response ''visits'' = None \<Longrightarrow> sw_table env domain response = Inr DataFrame_empty"
  by (simp add: sw_table_def)

lemma sw_table_empty_visits:
  "sw_table env domain ((''visits'', JArr []) # rest) = Inl KeyError"
  by (simp add: sw_table_def DataFrame_def DataFrame_records_def first_occ_def
      frame_setitem_scalar_def convert_date_def frame_getitem_def)

lemma sw_table_rows:
  fixes env :: "('f, 'd, 'w) env"
  assumes t: "sw_table env domain response = Inr t"
    and visits: "map_of response ''visits'' = Some (JArr xs)"
    and objs: "list_all is_JObj xs"
  shows "index_len t = length xs"
    and "map_of (cols t) (JStr ''domain'') = Some (replicate (length xs) (CObj (JStr domain)))"
    and "\<exists>vs ds. to_datetime env vs = Inr ds \<and>
           map_of (cols t) (JStr ''date'') = Some (align (length xs) (map CTime ds))"
    and "valid env t"
proof -
  define df :: "('f, 'd) dataframe" where
    "df = DataFrame_records
            (map (\<lambda>x. case x of JObj kvs \<Rightarrow> map (\<lambda>(k, v). (JStr k, CObj v)) kvs | _ \<Rightarrow> []) xs)"
  define df1 where "df1 = frame_setitem_scalar df (JStr ''domain'') (CObj (JStr domain))"
  from objs have "DataFrame env (JArr xs) = Inr df"
    by (simp add: DataFrame_def df_def)
  with t visits obtain df2 where
    c: "convert_date env df1 = Inr df2" and v: "validate_data env df2 = Inr t"
    by (auto simp: sw_table_def df1_def split: sum.splits)
  from validate_data_Inr [OF v] have t2: "t = df2" .
  have n: "index_len df1 = length xs"
    by (simp add: df1_def df_def frame_setitem_scalar_def DataFrame_records_def)
  have dom: "map_of (cols df1) (JStr ''domain'') = Some (replicate (length xs) (CObj (JStr domain)))"
    by (simp add: df1_def df_def frame_setitem_scalar_def map_of_dict_set DataFrame_records_def)
  from convert_date_Inr(1) [OF c] n t2 show "index_len t = length xs" by simp
  from convert_date_Inr(3) [OF c, of "JStr ''domain''"] dom t2
  show "map_of (cols t) (JStr ''domain'') = Some (replicate (length xs) (CObj (JStr domain)))"
    by simp
  from convert_date_Inr(4) [OF c] n t2
  show "\<exists>vs ds. to_datetime env vs = Inr ds \<and>
           map_of (cols t) (JStr ''date'') = Some (align (length xs) (map CTime ds))"
    by auto
  from v t2 show "valid env t"
    by (simp add: validate_data_def split: if_splits)
qed

text \<open>
  C6. On the response \<^verbatim>\<open>{"visits": []}\<close> \<^verbatim>\<open>get_website_overview\<close> raises \<open>KeyError\<close>,
  where the claim has it return a table with no rows. The GA4 connector guards the same
  conversion with \<^verbatim>\<open>if 'date' in df.columns\<close>; this method does not.
\<close>

theorem get_website_overview_empty_visits:
  "get_website_overview (mock_env [(''visits'', JArr [])]) (SimilarwebConnector ''key'')
     ''example.com'' ''2024-01'' ''2024-02'' None None 0 = (Inl KeyError, 1)"
  by (simp add: get_website_overview_def mock_env_request sw_table_empty_visits)

end
